theory Spec2Isabelle
  imports Main "HOL-Library.AList" "HOL-Library.Word"
begin

section \<open>JSON values and the JavaScript operations the store relies on\<close>

text \<open>
  The store of \<^verbatim>\<open>src/lib/database.ts\<close> keeps every collection as a JSON text in the
  browser's \<^verbatim>\<open>localStorage\<close> and works on whatever \<^verbatim>\<open>JSON.parse\<close> returns; the
  TypeScript interfaces of \<^verbatim>\<open>src/lib/data.ts\<close> are not checked at run time. Values are
  therefore modelled as untyped JSON. \<^verbatim>\<open>undefined\<close> is \<open>None\<close> of \<open>json option\<close>.
  A number is an integer from \<open>- 2\<^sup>5\<^sup>3\<close> to \<open>2\<^sup>5\<^sup>3 - 1\<close>, read with \<^const>\<open>sint\<close>: the
  integers a double holds exactly and \<^verbatim>\<open>JSON.stringify\<close> writes digit by digit (the
  records of this repository carry no fractions). A string is the list of its code
  units, each below 256 (the Latin-1 range). An object is the list of its fields in
  insertion order (field names are distinct; a lookup reads the first). A value is a
  tree, as \<^verbatim>\<open>JSON.parse\<close> builds it: no array or object occurs in two places.
\<close>

datatype json =
    JNull
  | JBool bool
  | JNum "54 word"
  | JStr string
  | JArr "json list"
  | JObj "(string \<times> json) list"

text \<open>JavaScript truthiness, as used by \<^verbatim>\<open>if (x)\<close>, \<^verbatim>\<open>!x\<close>, \<^verbatim>\<open>&&\<close> and \<^verbatim>\<open>||\<close>.\<close>

fun truthy :: "json option \<Rightarrow> bool" where
  "truthy None = False"
| "truthy (Some JNull) = False"
| "truthy (Some (JBool b)) = b"
| "truthy (Some (JNum n)) = (n \<noteq> 0)"
| "truthy (Some (JStr s)) = (s \<noteq> [])"
| "truthy (Some (JArr xs)) = True"
| "truthy (Some (JObj fs)) = True"

text \<open>
  Property access \<^verbatim>\<open>x.k\<close> on a value other than \<^verbatim>\<open>null\<close>, for the field names
  this program reads (none of them is a built-in property of strings, numbers or arrays).
  On \<^verbatim>\<open>null\<close> the access throws a TypeError; every caller below guards that case.
\<close>

fun getProp :: "json \<Rightarrow> string \<Rightarrow> json option" where
  "getProp (JObj fs) k = map_of fs k"
| "getProp _ k = None"

text \<open>\<^verbatim>\<open>a || b\<close>\<close>

definition orElse :: "json option \<Rightarrow> json option \<Rightarrow> json option" where
  "orElse a b = (if truthy a then a else b)"

text \<open>\<^verbatim>\<open>Array.isArray\<close>\<close>

fun isArray :: "json option \<Rightarrow> bool" where
  "isArray (Some (JArr xs)) = True"
| "isArray _ = False"

text \<open>
  An array whose elements can all be dereferenced: the receiver of \<^verbatim>\<open>find\<close>,
  \<^verbatim>\<open>filter\<close>, \<^verbatim>\<open>forEach\<close> and \<^verbatim>\<open>push\<close> with a callback that reads a property of each
  element. \<open>None\<close> stands for the TypeError JavaScript throws when the receiver is not
  an array (no such method) or an element is \<^verbatim>\<open>null\<close>.
\<close>

fun recordsOf :: "json \<Rightarrow> json list option" where
  "recordsOf (JArr xs) = (if JNull \<in> set xs then None else Some xs)"
| "recordsOf _ = None"

subsection \<open>Decimal numerals and \<^verbatim>\<open>JSON.stringify\<close>\<close>

function digits :: "int \<Rightarrow> string" where
  "digits n = (if n < 10 then [char_of (48 + n)] else digits (n div 10) @ [char_of (48 + n mod 10)])"
  by pat_completeness auto
termination
  by (relation "measure nat") auto

declare digits.simps [simp del]

definition show_int :: "int \<Rightarrow> string" where
  "show_int i = (if i < 0 then CHR ''-'' # digits (- i) else digits i)"

definition hexDigit :: "nat \<Rightarrow> char" where
  "hexDigit n = (if n < 10 then char_of (48 + n) else char_of (87 + n))"

text \<open>
  The escapes of \<^verbatim>\<open>JSON.stringify\<close>: the double quote (0x22), the backslash (0x5C), the
  short forms for backspace, tab, newline, form feed and carriage return, and
  \<^verbatim>\<open>\u00XX\<close> for the other control characters.
\<close>

definition escapeChar :: "char \<Rightarrow> string" where
  "escapeChar c =
     (let n = (of_char c :: nat) in
      if n = 0x22 then [CHR 0x5C, CHR 0x22]
      else if n = 0x5C then [CHR 0x5C, CHR 0x5C]
      else if n = 8 then [CHR 0x5C, CHR ''b'']
      else if n = 9 then [CHR 0x5C, CHR ''t'']
      else if n = 10 then [CHR 0x5C, CHR ''n'']
      else if n = 12 then [CHR 0x5C, CHR ''f'']
      else if n = 13 then [CHR 0x5C, CHR ''r'']
      else if n < 32 then [CHR 0x5C, CHR ''u'', CHR ''0'', CHR ''0'', hexDigit (n div 16), hexDigit (n mod 16)]
      else [c])"

definition quote :: "string \<Rightarrow> string" where
  "quote s = CHR 0x22 # concat (map escapeChar s) @ [CHR 0x22]"

fun commas :: "string list \<Rightarrow> string" where
  "commas [] = []"
| "commas [x] = x"
| "commas (x # y # ys) = x @ '','' @ commas (y # ys)"

primrec stringify :: "json \<Rightarrow> string" where
  "stringify JNull = ''null''"
| "stringify (JBool b) = (if b then ''true'' else ''false'')"
| "stringify (JNum n) = show_int (sint n)"
| "stringify (JStr s) = quote s"
| "stringify (JArr xs) = ''['' @ commas (map stringify xs) @ '']''"
| "stringify (JObj fs) =
     ''{'' @ commas (map (\<lambda>(k, t). quote k @ '':'' @ t) (map (map_prod id stringify) fs)) @ ''}''"



text \<open>
  The conversion of a value to a string (ToString of the language specification), which
  \<^verbatim>\<open>new Date(v)\<close> applies to an array or object: an array is the join of its elements
  with commas, \<^verbatim>\<open>null\<close> elements as the empty string.
\<close>

primrec ToString :: "json \<Rightarrow> string" where
  "ToString JNull = ''null''"
| "ToString (JBool b) = (if b then ''true'' else ''false'')"
| "ToString (JNum n) = show_int (sint n)"
| "ToString (JStr s) = s"
| "ToString (JArr xs) = commas (map2 (\<lambda>x t. if x = JNull then [] else t) xs (map ToString xs))"
| "ToString (JObj fs) = ''[object Object]''"

section \<open>The host: localStorage, the clock, the event bus\<close>

text \<open>
  A stored text is either \<open>Doc j\<close>, the text \<^verbatim>\<open>JSON.stringify\<close> produces for \<open>j\<close>
  (every write of this program stores such a text), or \<open>Raw s\<close>, a text \<open>s\<close> that
  \<^verbatim>\<open>JSON.parse\<close> rejects (the empty string included).
\<close>

datatype jtext = Doc json | Raw string

fun chars :: "jtext \<Rightarrow> string" where
  "chars (Doc j) = stringify j"
| "chars (Raw s) = s"

text \<open>\<^verbatim>\<open>JSON.parse\<close>; \<open>None\<close> is the SyntaxError.\<close>

fun JSON_parse :: "jtext \<Rightarrow> json option" where
  "JSON_parse (Doc j) = Some j"
| "JSON_parse (Raw s) = None"

text \<open>The exception \<^verbatim>\<open>localStorage.setItem\<close> throws: its \<^verbatim>\<open>name\<close> and \<^verbatim>\<open>code\<close>.\<close>

datatype DOMException = DOMException (exn_name: string) (exn_code: nat)

datatype topic =
    Services | Team | Testimonials | Jobs | Users | Contacts | Newsletter
  | Applications | ActivityLogs | Settings | StorageWarning

text \<open>
  What the store does to the outside, in order: each call of
  \<^verbatim>\<open>localStorage.setItem\<close> (accepted or not), each \<^verbatim>\<open>dbEvents.emit\<close>, and the window
  event \<^verbatim>\<open>storage:quotaError\<close> with its detail (usage bytes, usage percentage in
  hundredths of a percent, quota bytes). Listeners are outside this model.
\<close>

datatype event =
    SetItem string jtext
  | Emit topic
  | QuotaErrorEvent nat nat nat

datatype exn =
    TypeError
  | HostError DOMException
  | StorageQuotaError (usagePercentage: nat) (usageBytes: nat) (quotaBytes: nat)

datatype 'a result = Returned 'a | Threw exn

text \<open>
  The world a call runs in. \<open>storage\<close> is \<^verbatim>\<open>localStorage\<close>; \<open>policy\<close> is the host's
  decision on a write, given the current content, the key and the new text (\<open>None\<close>
  accepts it); \<open>now\<close> is what the next \<^verbatim>\<open>Date.now()\<close> returns and \<open>ticks\<close> the time
  that passes after each reading; \<open>date_parse\<close> and \<open>toISOString\<close> are the host's
  \<^verbatim>\<open>Date\<close> parser and formatter; \<open>engine_sort\<close> is the order \<^verbatim>\<open>Array.prototype.sort\<close>
  leaves an array in when the comparator is not a consistent one (the language leaves
  that order to the engine), given the sort keys and the array; \<open>randoms\<close> are the
  suffixes \<^verbatim>\<open>Math.random().toString(36).slice(2, 11)\<close> will return. The three fields
  after them are the private fields of the \<^verbatim>\<open>Database\<close> instance.
\<close>

record world =
  storage :: "(string \<times> jtext) list"
  policy :: "(string \<times> jtext) list \<Rightarrow> string \<Rightarrow> string \<Rightarrow> DOMException option"
  now :: int
  ticks :: "int list"
  date_parse :: "string \<Rightarrow> int option"
  toISOString :: "int \<Rightarrow> string"
  engine_sort :: "int option list \<Rightarrow> json list \<Rightarrow> json list"
  randoms :: "string list"
  lastStorageCheckTime :: int
  cachedStorageSize :: nat
  lastWarningTime :: int
  trace :: "event list"

definition Date_now :: "world \<Rightarrow> int \<times> world" where
  "Date_now w =
     (now w, (case ticks w of [] \<Rightarrow> w | d # ds \<Rightarrow> w\<lparr>now := now w + d, ticks := ds\<rparr>))"

definition randomSuffix :: "world \<Rightarrow> string \<times> world" where
  "randomSuffix w = (case randoms w of [] \<Rightarrow> ([], w) | r # rs \<Rightarrow> (r, w\<lparr>randoms := rs\<rparr>))"

definition localStorage_getItem :: "world \<Rightarrow> string \<Rightarrow> jtext option" where
  "localStorage_getItem w k = map_of (storage w) k"

definition localStorage_setItem :: "string \<Rightarrow> jtext \<Rightarrow> world \<Rightarrow> DOMException option \<times> world" where
  "localStorage_setItem k v w =
     (let w' = w\<lparr>trace := trace w @ [SetItem k v]\<rparr> in
      case policy w (storage w) k (chars v) of
        None \<Rightarrow> (None, w'\<lparr>storage := AList.update k v (storage w)\<rparr>)
      | Some e \<Rightarrow> (Some e, w'))"

definition localStorage_removeItem :: "string \<Rightarrow> world \<Rightarrow> world" where
  "localStorage_removeItem k w = w\<lparr>storage := AList.delete k (storage w)\<rparr>"

definition emit :: "topic \<Rightarrow> world \<Rightarrow> world" where
  "emit t w = w\<lparr>trace := trace w @ [Emit t]\<rparr>"

text \<open>
  \<^verbatim>\<open>new Date(v)\<close> for a field value; \<open>None\<close> is the Invalid Date. A string is parsed
  by the host; a number is a time value up to 8.64e15 milliseconds either side of the
  epoch and invalid beyond; \<^verbatim>\<open>null\<close>, \<^verbatim>\<open>false\<close> and \<^verbatim>\<open>true\<close> convert to 0, 0 and 1;
  an array or object is converted to a string, and that string parsed;
  \<^verbatim>\<open>undefined\<close> is invalid.
\<close>

fun Date_of :: "world \<Rightarrow> json option \<Rightarrow> int option" where
  "Date_of w None = None"
| "Date_of w (Some JNull) = Some 0"
| "Date_of w (Some (JBool b)) = Some (if b then 1 else 0)"
| "Date_of w (Some (JNum n)) = (if \<bar>sint n\<bar> \<le> 8640000000000000 then Some (sint n) else None)"
| "Date_of w (Some (JStr s)) = date_parse w s"
| "Date_of w (Some (JArr xs)) = date_parse w (ToString (JArr xs))"
| "Date_of w (Some (JObj fs)) = date_parse w (ToString (JObj fs))"

section \<open>Database keys\<close>

abbreviation DB_SERVICES :: string where "DB_SERVICES \<equiv> ''edgemakers_db_services''"
abbreviation DB_TEAM :: string where "DB_TEAM \<equiv> ''edgemakers_db_team''"
abbreviation DB_TESTIMONIALS :: string where "DB_TESTIMONIALS \<equiv> ''edgemakers_db_testimonials''"
abbreviation DB_JOBS :: string where "DB_JOBS \<equiv> ''edgemakers_db_jobs''"
abbreviation DB_USERS :: string where "DB_USERS \<equiv> ''edgemakers_db_users''"
abbreviation DB_CONTACTS :: string where "DB_CONTACTS \<equiv> ''edgemakers_db_contacts''"
abbreviation DB_NEWSLETTER :: string where "DB_NEWSLETTER \<equiv> ''edgemakers_db_newsletter''"
abbreviation DB_APPLICATIONS :: string where "DB_APPLICATIONS \<equiv> ''edgemakers_db_applications''"
abbreviation DB_ACTIVITY_LOGS :: string where "DB_ACTIVITY_LOGS \<equiv> ''edgemakers_db_activity_logs''"

abbreviation BACKUP_FORMAT_VERSION :: string where "BACKUP_FORMAT_VERSION \<equiv> ''1.0.0''"

text \<open>The fallback of \<^verbatim>\<open>APP_VERSION\<close>, used when the build sets neither environment variable.\<close>

abbreviation APP_VERSION :: string where "APP_VERSION \<equiv> ''0.1.0''"

definition LEGACY_KEY_MAPPINGS :: "(string \<times> string) list" where
  "LEGACY_KEY_MAPPINGS =
     [(''edgemakers_contacts'', DB_CONTACTS),
      (''edgemakers_newsletter'', DB_NEWSLETTER),
      (''edgemakers_job_applications'', DB_APPLICATIONS),
      (''edgemakers_user'', DB_USERS)]"

section \<open>Generic database operations\<close>

text \<open>
  The model is the browser side of the code: \<^verbatim>\<open>typeof window !== "undefined"\<close> holds.
  Console output is not modelled.
\<close>

definition getItem :: "world \<Rightarrow> string \<Rightarrow> json \<Rightarrow> json" where
  "getItem w key defaultValue =
     (case localStorage_getItem w key of
        None \<Rightarrow> defaultValue
      | Some item \<Rightarrow>
          if chars item = [] then defaultValue
          else (case JSON_parse item of None \<Rightarrow> defaultValue | Some v \<Rightarrow> v))"

text \<open>The loop of \<^verbatim>\<open>getStorageSize\<close>: two bytes for each character of each key and value.\<close>

definition totalSize :: "(string \<times> jtext) list \<Rightarrow> nat" where
  "totalSize st =
     sum_list (map (\<lambda>(key, v). if key \<noteq> [] \<and> chars v \<noteq> [] then (length key + length (chars v)) * 2 else 0) st)"

abbreviation STORAGE_CHECK_COOLDOWN :: int where "STORAGE_CHECK_COOLDOWN \<equiv> 10000"
abbreviation WARNING_COOLDOWN :: int where "WARNING_COOLDOWN \<equiv> 60000"

text \<open>\<^verbatim>\<open>5 * 1024 * 1024\<close>\<close>

abbreviation QUOTA_BYTES :: nat where "QUOTA_BYTES \<equiv> 5242880"

definition getStorageSize :: "world \<Rightarrow> nat \<times> world" where
  "getStorageSize w =
     (let (t, w1) = Date_now w in
      if cachedStorageSize w1 > 0 \<and> t - lastStorageCheckTime w1 < STORAGE_CHECK_COOLDOWN
      then (cachedStorageSize w1, w1)
      else (let total = totalSize (storage w1)
            in (total, w1\<lparr>cachedStorageSize := total, lastStorageCheckTime := t\<rparr>)))"

text \<open>
  The arithmetic of \<^verbatim>\<open>getStorageUsagePercentage\<close> is in double precision. A double that
  is not negative is carried as a fraction (numerator, denominator); \<open>toDouble a b\<close> is
  the double nearest to \<open>a / b\<close>, ties to the even significand of 53 bits (the numbers
  here are far from the subnormal range and from overflow).
\<close>

fun bitLength :: "nat \<Rightarrow> nat" where
  "bitLength n = (if n = 0 then 0 else Suc (bitLength (n div 2)))"

declare bitLength.simps [simp del]

definition roundHalfEven :: "nat \<Rightarrow> nat \<Rightarrow> nat" where
  "roundHalfEven n d =
     (let q = n div d; r = n mod d
      in if 2 * r < d then q else if d < 2 * r then q + 1 else if even q then q else q + 1)"

definition toDouble :: "nat \<Rightarrow> nat \<Rightarrow> nat \<times> nat" where
  "toDouble a b =
     (if a = 0 then (0, 1)
      else (let e0 = int (bitLength a) - int (bitLength b) - 53;
                e = (if b * 2 ^ nat e0 * 2 ^ 53 \<le> a * 2 ^ nat (- e0) then e0 + 1 else e0);
                m = roundHalfEven (a * 2 ^ nat (- e)) (b * 2 ^ nat e)
            in (m * 2 ^ nat e, 2 ^ nat (- e))))"

text \<open>
  \<^verbatim>\<open>Math.round(percentage * 100) / 100\<close> with
  \<^verbatim>\<open>percentage = (usageBytes / quotaBytes) * 100\<close>: three rounded operations, then
  \<^verbatim>\<open>Math.round\<close>, which rounds halves up. The result is carried in hundredths of a
  percent, the integer that \<^verbatim>\<open>Math.round\<close> returns.
\<close>

definition percentHundredths :: "nat \<Rightarrow> nat" where
  "percentHundredths bytes =
     (let (n1, d1) = toDouble bytes QUOTA_BYTES;
          (n2, d2) = toDouble (n1 * 100) d1;
          (n3, d3) = toDouble (n2 * 100) d2
      in (2 * n3 + d3) div (2 * d3))"

definition getStorageUsagePercentage :: "world \<Rightarrow> nat \<times> world" where
  "getStorageUsagePercentage w =
     (let (usageBytes, w1) = getStorageSize w
      in (percentHundredths usageBytes, w1))"

definition isStorageNearCapacity :: "world \<Rightarrow> bool \<times> world" where
  "isStorageNearCapacity w = (let (p, w1) = getStorageUsagePercentage w in (8000 < p, w1))"

definition getContacts :: "world \<Rightarrow> json" where
  "getContacts w = getItem w DB_CONTACTS (JArr [])"

definition getNewsletterSubscribers :: "world \<Rightarrow> json" where
  "getNewsletterSubscribers w = getItem w DB_NEWSLETTER (JArr [])"

definition getApplications :: "world \<Rightarrow> json" where
  "getApplications w = getItem w DB_APPLICATIONS (JArr [])"

text \<open>\<^verbatim>\<open>[...x]\<close>: an array is copied, a string is spread into its characters, anything else
  is not iterable (\<open>None\<close>, the TypeError).\<close>

fun spread :: "json \<Rightarrow> json list option" where
  "spread (JArr xs) = Some xs"
| "spread (JStr s) = Some (map (\<lambda>c. JStr [c]) s)"
| "spread _ = None"

text \<open>\<^verbatim>\<open>new Date(x.field).getTime()\<close>, the sort key, for a valid date.\<close>

definition timeOf :: "world \<Rightarrow> string \<Rightarrow> json \<Rightarrow> int" where
  "timeOf w field x = (case Date_of w (getProp x field) of Some t \<Rightarrow> t | None \<Rightarrow> 0)"

text \<open>
  \<^verbatim>\<open>[...xs].sort((a, b) => new Date(a.field).getTime() - new Date(b.field).getTime())\<close>.
  The comparator runs only on two or more elements, and throws on a \<^verbatim>\<open>null\<close> element.
  With every date valid the sort is the stable one, oldest first. With an Invalid Date
  the comparator returns NaN, which counts as equal: when the valid times are all the
  same every pair compares equal and the stable sort leaves the array as it is;
  otherwise the comparator is not consistent and the order is the engine's.
\<close>

definition sortOldestFirst :: "world \<Rightarrow> string \<Rightarrow> json \<Rightarrow> json list option" where
  "sortOldestFirst w field v =
     (case spread v of
        None \<Rightarrow> None
      | Some xs \<Rightarrow>
          if 2 \<le> length xs \<and> JNull \<in> set xs then None
          else (let keys = map (\<lambda>x. Date_of w (getProp x field)) xs
                in if None \<notin> set keys then Some (sort_key (timeOf w field) xs)
                   else if length xs < 2 \<or> length (remdups (filter (\<lambda>k. k \<noteq> None) keys)) \<le> 1
                   then Some xs
                   else Some (engine_sort w keys xs)))"

text \<open>
  \<^verbatim>\<open>Math.ceil(n * 0.2)\<close>. In double precision \<^verbatim>\<open>n * 0.2\<close> is the integer \<open>n / 5\<close> when 5
  divides \<open>n\<close> and lies strictly between two integers otherwise, so the ceiling is that
  of the exact quotient.
\<close>

definition ceil20 :: "nat \<Rightarrow> nat" where
  "ceil20 n = (n + 4) div 5"

text \<open>One of the three guarded saves of \<^verbatim>\<open>cleanupOldData\<close> (its own try/catch).\<close>

definition saveCleaned :: "string \<Rightarrow> topic \<Rightarrow> json list \<Rightarrow> world \<Rightarrow> world" where
  "saveCleaned key t xs w =
     (case localStorage_setItem key (Doc (JArr xs)) w of
        (None, w1) \<Rightarrow> emit t w1
      | (Some e, w1) \<Rightarrow> w1)"

definition cleanupOldData :: "nat \<Rightarrow> world \<Rightarrow> bool \<times> world" where
  "cleanupOldData bytesNeeded w =
     (let (sizeBefore, w1) = getStorageSize w;
          contacts = getContacts w1;
          subscribers = getNewsletterSubscribers w1;
          applications = getApplications w1
      in case (sortOldestFirst w1 ''submittedAt'' contacts,
               sortOldestFirst w1 ''subscribedAt'' subscribers,
               sortOldestFirst w1 ''submittedAt'' applications) of
           (Some sortedContacts, Some sortedSubscribers, Some sortedApplications) \<Rightarrow>
             (let newContacts = drop (ceil20 (length sortedContacts)) sortedContacts;
                  newSubscribers = drop (ceil20 (length sortedSubscribers)) sortedSubscribers;
                  newApplications = drop (ceil20 (length sortedApplications)) sortedApplications;
                  w2 = saveCleaned DB_CONTACTS Contacts newContacts w1;
                  w3 = saveCleaned DB_NEWSLETTER Newsletter newSubscribers w2;
                  w4 = saveCleaned DB_APPLICATIONS Applications newApplications w3;
                  (sizeAfter, w5) = getStorageSize w4;
                  freedBytes = int sizeBefore - int sizeAfter
              in (int bytesNeeded \<le> 2 * freedBytes, w5))
         | _ \<Rightarrow> (False, w1))"

definition isQuotaError :: "DOMException \<Rightarrow> bool" where
  "isQuotaError e =
     (exn_name e = ''QuotaExceededError'' \<or> exn_name e = ''NS_ERROR_DOM_QUOTA_REACHED''
      \<or> exn_code e = 22 \<or> exn_code e = 1014)"

text \<open>The start of \<^verbatim>\<open>setItem\<close>: the throttled near-capacity warning.\<close>

definition warnIfNearCapacity :: "world \<Rightarrow> world" where
  "warnIfNearCapacity w =
     (let (t, w1) = Date_now w;
          (near, w2) = isStorageNearCapacity w1
      in if near \<and> t - lastWarningTime w2 > WARNING_COOLDOWN
         then (emit StorageWarning w2)\<lparr>lastWarningTime := t\<rparr>
         else w2)"

text \<open>The end of \<^verbatim>\<open>setItem\<close>, reached when the cleanup or the retry failed: the window
  event, then the structured error.\<close>

definition quotaFailure :: "world \<Rightarrow> unit result \<times> world" where
  "quotaFailure w =
     (let (storageSize, w1) = getStorageSize w;
          (storagePercentage, w2) = getStorageUsagePercentage w1
      in (Threw (StorageQuotaError storagePercentage storageSize QUOTA_BYTES),
          w2\<lparr>trace := trace w2 @ [QuotaErrorEvent storageSize storagePercentage QUOTA_BYTES]\<rparr>))"

definition setItem :: "string \<Rightarrow> json \<Rightarrow> world \<Rightarrow> unit result \<times> world" where
  "setItem key v w =
     (case localStorage_setItem key (Doc v) (warnIfNearCapacity w) of
        (None, w1) \<Rightarrow> (Returned (), w1)
      | (Some error, w1) \<Rightarrow>
          if isQuotaError error then
            (let bytesNeeded = length (stringify v) * 2;
                 (cleanupSuccessful, w2) = cleanupOldData bytesNeeded w1
             in if cleanupSuccessful then
                  (case localStorage_setItem key (Doc v) w2 of
                     (None, w3) \<Rightarrow> (Returned (), w3)
                   | (Some retryError, w3) \<Rightarrow> quotaFailure w3)
                else quotaFailure w2)
          else (Threw (HostError error), w1))"

text \<open>Sequencing of calls that may throw.\<close>

definition andThen :: "'a result \<times> world \<Rightarrow> ('a \<Rightarrow> world \<Rightarrow> 'b result \<times> world) \<Rightarrow> 'b result \<times> world" where
  "andThen m f = (case m of (Returned x, w) \<Rightarrow> f x w | (Threw e, w) \<Rightarrow> (Threw e, w))"

text \<open>\<^verbatim>\<open>this.setItem(key, value); dbEvents.emit(topic);\<close>\<close>

definition setAndEmit :: "string \<Rightarrow> topic \<Rightarrow> json \<Rightarrow> world \<Rightarrow> unit result \<times> world" where
  "setAndEmit key t v w = andThen (setItem key v w) (\<lambda>_ w1. (Returned (), emit t w1))"

section \<open>Collections\<close>

definition getServices :: "world \<Rightarrow> json" where
  "getServices w = getItem w DB_SERVICES (JArr [])"


definition getTeam :: "world \<Rightarrow> json" where
  "getTeam w = getItem w DB_TEAM (JArr [])"


definition getTestimonials :: "world \<Rightarrow> json" where
  "getTestimonials w = getItem w DB_TESTIMONIALS (JArr [])"


definition getJobs :: "world \<Rightarrow> json" where
  "getJobs w = getItem w DB_JOBS (JArr [])"


definition getUsers :: "world \<Rightarrow> json" where
  "getUsers w = getItem w DB_USERS (JArr [])"


definition getActivityLogs :: "world \<Rightarrow> json" where
  "getActivityLogs w = getItem w DB_ACTIVITY_LOGS (JArr [])"

section \<open>Activity log\<close>

text \<open>The filter of the retention sweep: \<^verbatim>\<open>new Date(log.timestamp) >= cutoffDate\<close>; a
  comparison with an Invalid Date is false.\<close>

definition notOlderThan :: "world \<Rightarrow> int \<Rightarrow> json \<Rightarrow> bool" where
  "notOlderThan w cutoff log =
     (case Date_of w (getProp log ''timestamp'') of Some ts \<Rightarrow> cutoff \<le> ts | None \<Rightarrow> False)"

definition cleanupOldActivityLogs :: "int \<Rightarrow> world \<Rightarrow> nat \<times> world" where
  "cleanupOldActivityLogs daysToKeep w =
     (let logs = getActivityLogs w;
          (t, w1) = Date_now w;
          cutoff = t - daysToKeep * 24 * 60 * 60 * 1000
      in case recordsOf logs of
           None \<Rightarrow> (0, w1)
         | Some xs \<Rightarrow>
             (let filteredLogs = filter (notOlderThan w1 cutoff) xs
              in if length filteredLogs < length xs then
                   (case setItem DB_ACTIVITY_LOGS (JArr filteredLogs) w1 of
                      (Returned u, w2) \<Rightarrow> (length xs - length filteredLogs, emit ActivityLogs w2)
                    | (Threw e, w2) \<Rightarrow> (0, w2))
                 else (0, w1)))"

text \<open>
  \<^verbatim>\<open>addActivityLog\<close> takes the fields of the entry without id and timestamp. Every
  failure inside is caught; the default of \<^verbatim>\<open>daysToKeep\<close> is 30.
\<close>

definition addActivityLog :: "(string \<times> json) list \<Rightarrow> world \<Rightarrow> world" where
  "addActivityLog log w =
     (let logs = getActivityLogs w;
          (t, w1) = Date_now w;
          (r, w2) = randomSuffix w1;
          (t2, w3) = Date_now w2;
          newLog = JObj (AList.update ''timestamp'' (JStr (toISOString w3 t2))
                          (AList.update ''id'' (JStr (''log-'' @ show_int t @ ''-'' @ r)) log))
      in case logs of
           JArr xs \<Rightarrow>
             (case setItem DB_ACTIVITY_LOGS (JArr (xs @ [newLog])) w3 of
                (Returned u, w4) \<Rightarrow> snd (cleanupOldActivityLogs 30 (emit ActivityLogs w4))
              | (Threw e, w4) \<Rightarrow> w4)
         | _ \<Rightarrow> w3)"

definition getCurrentUser :: "world \<Rightarrow> json" where
  "getCurrentUser w =
     (case localStorage_getItem w ''edgemakers_user'' of
        None \<Rightarrow> JStr ''System''
      | Some userStr \<Rightarrow>
          if chars userStr = [] then JStr ''System''
          else (case JSON_parse userStr of
                  None \<Rightarrow> JStr ''System''
                | Some JNull \<Rightarrow> JStr ''System''
                | Some user \<Rightarrow>
                    (case orElse (orElse (getProp user ''email'') (getProp user ''name'')) (Some (JStr ''Admin'')) of
                       Some v \<Rightarrow> v
                     | None \<Rightarrow> JStr ''Admin'')))"

text \<open>A field whose value is \<^verbatim>\<open>undefined\<close> (\<^verbatim>\<open>details\<close>, when not given) is not
  written by \<^verbatim>\<open>JSON.stringify\<close>, so the stored entry does not have it.\<close>

definition logActivity :: "string \<Rightarrow> string \<Rightarrow> string \<Rightarrow> json \<Rightarrow> string option \<Rightarrow> world \<Rightarrow> world" where
  "logActivity action entityType entityId entityName details w =
     addActivityLog
       ([(''action'', JStr action), (''entityType'', JStr entityType), (''entityId'', JStr entityId),
         (''entityName'', entityName), (''user'', getCurrentUser w)]
        @ (case details of None \<Rightarrow> [] | Some d \<Rightarrow> [(''details'', JStr d)])) w"

section \<open>Deleting a record\<close>

text \<open>\<^verbatim>\<open>x || "literal"\<close>\<close>

definition orDefault :: "json option \<Rightarrow> json \<Rightarrow> json" where
  "orDefault a d = (case a of Some v \<Rightarrow> if truthy a then v else d | None \<Rightarrow> d)"

text \<open>
  The four delete operations of the source have one body, up to the key, the topic, the
  entity type, the name field and its fallback:
  \<^verbatim>\<open>find\<close> the record, take its name, \<^verbatim>\<open>filter\<close> it out, save, log.
\<close>

definition deleteRecord ::
  "string \<Rightarrow> topic \<Rightarrow> string \<Rightarrow> string \<Rightarrow> string \<Rightarrow> string \<Rightarrow> world \<Rightarrow> unit result \<times> world" where
  "deleteRecord key t entityType nameField unknown ident w =
     (case recordsOf (getItem w key (JArr [])) of
        None \<Rightarrow> (Threw TypeError, w)
      | Some xs \<Rightarrow>
          (let found = find (\<lambda>s. getProp s ''id'' = Some (JStr ident)) xs;
               entityName = orDefault (case found of None \<Rightarrow> None | Some s \<Rightarrow> getProp s nameField) (JStr unknown);
               filtered = filter (\<lambda>s. getProp s ''id'' \<noteq> Some (JStr ident)) xs
           in andThen (setAndEmit key t (JArr filtered) w)
                (\<lambda>u w1. (Returned (), logActivity ''delete'' entityType ident entityName None w1))))"

definition deleteService :: "string \<Rightarrow> world \<Rightarrow> unit result \<times> world" where
  "deleteService ident w = deleteRecord DB_SERVICES Services ''service'' ''title'' ''Unknown Service'' ident w"

definition deleteTeamMember :: "string \<Rightarrow> world \<Rightarrow> unit result \<times> world" where
  "deleteTeamMember ident w = deleteRecord DB_TEAM Team ''team'' ''name'' ''Unknown Member'' ident w"

definition deleteTestimonial :: "string \<Rightarrow> world \<Rightarrow> unit result \<times> world" where
  "deleteTestimonial ident w =
     deleteRecord DB_TESTIMONIALS Testimonials ''testimonial'' ''author'' ''Unknown Author'' ident w"

definition deleteJob :: "string \<Rightarrow> world \<Rightarrow> unit result \<times> world" where
  "deleteJob ident w = deleteRecord DB_JOBS Jobs ''job'' ''title'' ''Unknown Job'' ident w"

section \<open>Backup: export, validation, import\<close>

definition exportAll :: "world \<Rightarrow> json \<times> world" where
  "exportAll w =
     (let (t, w1) = Date_now w;
          (r, w2) = randomSuffix w1;
          (t2, w3) = Date_now w2
      in (JObj [(''version'', JStr BACKUP_FORMAT_VERSION),
                (''appVersion'', JStr APP_VERSION),
                (''backupId'', JStr (''backup-'' @ show_int t @ ''-'' @ r)),
                (''services'', getServices w3),
                (''team'', getTeam w3),
                (''testimonials'', getTestimonials w3),
                (''jobs'', getJobs w3),
                (''users'', getUsers w3),
                (''contacts'', getContacts w3),
                (''newsletter'', getNewsletterSubscribers w3),
                (''applications'', getApplications w3),
                (''activityLogs'', getActivityLogs w3),
                (''exportedAt'', JStr (toISOString w3 t2))], w3))"

subsection \<open>Validation\<close>

record recordCounts =
  services_count :: nat
  team_count :: nat
  testimonials_count :: nat
  jobs_count :: nat
  users_count :: nat
  contacts_count :: nat
  newsletter_count :: nat
  applications_count :: nat

record backupMetadata =
  meta_version :: json
  meta_appVersion :: json
  meta_exportedAt :: "json option"
  meta_recordCounts :: recordCounts

record BackupValidationResult =
  isValid :: bool
  errors :: "string list"
  warnings :: "string list"
  metadata :: "backupMetadata option"

definition isDigit :: "char \<Rightarrow> bool" where
  "isDigit c = (48 \<le> (of_char c :: nat) \<and> (of_char c :: nat) \<le> 57)"

text \<open>\<^verbatim>\<open>parseInt(s, 10)\<close> on a string of digits.\<close>

definition parseDigits :: "string \<Rightarrow> nat" where
  "parseDigits s = foldl (\<lambda>n c. 10 * n + ((of_char c :: nat) - 48)) 0 s"

text \<open>The match of \<^verbatim>\<open>/^(\d+)\.(\d+)\.(\d+)/\<close>: three groups of digits separated by dots, at
  the start of the string; what follows is not looked at.\<close>

definition parseVersion :: "string \<Rightarrow> (nat \<times> nat \<times> nat) option" where
  "parseVersion version =
     (let a = takeWhile isDigit version; r1 = dropWhile isDigit version
      in if a = [] then None
         else (case r1 of
                 [] \<Rightarrow> None
               | d1 # s1 \<Rightarrow>
                   if d1 \<noteq> CHR ''.'' then None
                   else (let b = takeWhile isDigit s1; r2 = dropWhile isDigit s1
                         in if b = [] then None
                            else (case r2 of
                                    [] \<Rightarrow> None
                                  | d2 # s2 \<Rightarrow>
                                      if d2 \<noteq> CHR ''.'' then None
                                      else (let c = takeWhile isDigit s2
                                            in if c = [] then None
                                               else Some (parseDigits a, parseDigits b, parseDigits c))))))"

definition requiredFields :: "string list" where
  "requiredFields =
     [''services'', ''team'', ''testimonials'', ''jobs'', ''users'', ''contacts'',
      ''newsletter'', ''applications'', ''exportedAt'']"

definition arrayFields :: "string list" where
  "arrayFields =
     [''services'', ''team'', ''testimonials'', ''jobs'', ''users'', ''contacts'',
      ''newsletter'', ''applications'']"

definition missingFieldErrors :: "(string \<times> json) list \<Rightarrow> string list" where
  "missingFieldErrors fs =
     map (\<lambda>field. ''Missing required field: '' @ field)
       (filter (\<lambda>field. map_of fs field = None) requiredFields)"

text \<open>The version check; the first component are the errors, the second the warnings.
  It is called with a truthy string or with a falsy value.\<close>

definition versionMessages :: "json option \<Rightarrow> string list \<times> string list" where
  "versionMessages v =
     (case v of
        Some (JStr version) \<Rightarrow>
          if version = [] then
            ([], [''Backup does not include version information (limited compatibility)''])
          else
            (case (parseVersion version, parseVersion BACKUP_FORMAT_VERSION) of
               (Some (major, minor, patch), Some (cmajor, cminor, cpatch)) \<Rightarrow>
                 if major \<noteq> cmajor then
                   ([''Incompatible backup format version: '' @ version @ '' (current: '' @
                     BACKUP_FORMAT_VERSION @ ''). Major version mismatch.''], [])
                 else if minor \<noteq> cminor \<or> patch \<noteq> cpatch then
                   ([], [''Backup version ('' @ version @ '') differs from current version ('' @
                         BACKUP_FORMAT_VERSION @ '')''])
                 else ([], [])
             | _ \<Rightarrow> ([], [''Unable to parse version information: '' @ version]))
      | _ \<Rightarrow> ([], [''Backup does not include version information (limited compatibility)'']))"

definition arrayTypeErrors :: "(string \<times> json) list \<Rightarrow> string list" where
  "arrayTypeErrors fs =
     map (\<lambda>field. ''Invalid data type for '' @ field @ '': expected array'')
       (filter (\<lambda>field. truthy (map_of fs field) \<and> \<not> isArray (map_of fs field)) arrayFields)"

definition serviceStructureErrors :: "json list \<Rightarrow> string list" where
  "serviceStructureErrors items =
     map (\<lambda>(index, item). ''Invalid service structure at index '' @ digits (int index))
       (filter (\<lambda>(index, item). \<not> truthy (getProp item ''id'') \<or> \<not> truthy (getProp item ''title''))
          (zip [0 ..< length items] items))"

definition countOf :: "json option \<Rightarrow> nat" where
  "countOf v = (case v of Some (JArr xs) \<Rightarrow> length xs | _ \<Rightarrow> 0)"

definition invalidFormat :: BackupValidationResult where
  "invalidFormat =
     \<lparr>isValid = False, errors = [''Invalid backup file format''], warnings = [], metadata = None\<rparr>"

text \<open>
  Two statements of the body throw a TypeError, which the enclosing try/catch turns into
  the invalid-format result: \<^verbatim>\<open>version.match\<close> when \<^verbatim>\<open>data.version\<close> is truthy and not
  a string, and \<^verbatim>\<open>item.id\<close> when an element of the services array is \<^verbatim>\<open>null\<close>.
\<close>

definition validateThrows :: "(string \<times> json) list \<Rightarrow> bool" where
  "validateThrows fs =
     ((truthy (map_of fs ''version'') \<and> (case map_of fs ''version'' of Some (JStr s) \<Rightarrow> False | _ \<Rightarrow> True))
      \<or> (case map_of fs ''services'' of Some (JArr items) \<Rightarrow> JNull \<in> set items | _ \<Rightarrow> False))"

definition validateBackupFile :: "json \<Rightarrow> BackupValidationResult" where
  "validateBackupFile data =
     (case data of
        JObj fs \<Rightarrow>
          if validateThrows fs then invalidFormat
          else
            (let (versionErrors, versionWarnings) = versionMessages (map_of fs ''version'');
                 errs = missingFieldErrors fs @ versionErrors @ arrayTypeErrors fs
                        @ (case map_of fs ''services'' of
                             Some (JArr items) \<Rightarrow> serviceStructureErrors items
                           | _ \<Rightarrow> []);
                 counts = \<lparr>services_count = countOf (map_of fs ''services''),
                           team_count = countOf (map_of fs ''team''),
                           testimonials_count = countOf (map_of fs ''testimonials''),
                           jobs_count = countOf (map_of fs ''jobs''),
                           users_count = countOf (map_of fs ''users''),
                           contacts_count = countOf (map_of fs ''contacts''),
                           newsletter_count = countOf (map_of fs ''newsletter''),
                           applications_count = countOf (map_of fs ''applications'')\<rparr>
             in if length errs > 0 then
                  \<lparr>isValid = False, errors = errs, warnings = versionWarnings, metadata = None\<rparr>
                else
                  \<lparr>isValid = True, errors = [], warnings = versionWarnings,
                   metadata = Some \<lparr>meta_version = orDefault (map_of fs ''version'') (JStr ''unknown''),
                                     meta_appVersion = orDefault (map_of fs ''appVersion'') (JStr ''unknown''),
                                     meta_exportedAt = map_of fs ''exportedAt'',
                                     meta_recordCounts = counts\<rparr>\<rparr>)
      | _ \<Rightarrow> invalidFormat)"

subsection \<open>Import, replace strategy\<close>


text \<open>\<^verbatim>\<open>data.field\<close> when it is truthy, the empty array otherwise.\<close>

definition givenOrEmpty :: "json option \<Rightarrow> json" where
  "givenOrEmpty v = orDefault v (JArr [])"


subsection \<open>Import, merge strategy\<close>

text \<open>
  A JavaScript \<^verbatim>\<open>Map\<close> is the list of its entries in insertion order: \<^verbatim>\<open>set\<close> on a
  present key replaces the value in place, on an absent key appends
  (\<^const>\<open>AList.update\<close>); \<^verbatim>\<open>get\<close> is \<^const>\<open>map_of\<close>. A \<^verbatim>\<open>Map\<close> and a \<^verbatim>\<open>Set\<close>
  compare primitive keys (strings, numbers, booleans, \<^verbatim>\<open>null\<close>, \<^verbatim>\<open>undefined\<close>) by
  value and arrays and objects by identity. The id of a record that is an array or an
  object is one object of its own, so its key is the place of the record: the index in
  the stored collection, or the length of the stored collection plus the index in the
  backup's.
\<close>

definition idOf :: "json \<Rightarrow> json option" where
  "idOf item = getProp item ''id''"

datatype mapKey = ByValue "json option" | ByRef nat

fun primitive :: "json option \<Rightarrow> bool" where
  "primitive (Some (JArr xs)) = False"
| "primitive (Some (JObj fs)) = False"
| "primitive _ = True"

definition keyed :: "nat \<Rightarrow> json list \<Rightarrow> (mapKey \<times> json) list" where
  "keyed base xs =
     map (\<lambda>(i, x). (if primitive (idOf x) then ByValue (idOf x) else ByRef i, x)) (List.enumerate base xs)"

definition mapGetOr :: "('k \<times> json) list \<Rightarrow> 'k \<Rightarrow> json \<Rightarrow> json" where
  "mapGetOr m k d = (case map_of m k of Some v \<Rightarrow> v | None \<Rightarrow> d)"

text \<open>The local helper \<^verbatim>\<open>mergeById\<close> of \<^verbatim>\<open>importAllMerge\<close>; \<open>mergeKeyed\<close> is its
  result with the key of each record.\<close>

definition mergeKeyed :: "json list \<Rightarrow> json list \<Rightarrow> (mapKey \<times> json) list" where
  "mergeKeyed existing backup =
     (let ex = keyed 0 existing;
          bk = keyed (length existing) backup;
          m0 = fold (\<lambda>(k, item) m. AList.update k item m) bk [];
          m1 = fold (\<lambda>(k, item) m. if map_of m k = None then AList.update k item m else m) ex m0;
          backupIds = set (map fst bk)
      in map (\<lambda>(k, item). (k, mapGetOr m1 k item)) bk
         @ filter (\<lambda>(k, item). k \<notin> backupIds) ex)"


text \<open>One \<^verbatim>\<open>if (data.field) { ... }\<close> block of \<^verbatim>\<open>importAllMerge\<close>: nothing when the field
  is falsy; a TypeError when the stored collection or the field is not an array of
  dereferenceable elements; the merged collection saved otherwise.\<close>

definition mergeBlock ::
  "json option \<Rightarrow> json \<Rightarrow> (json list \<Rightarrow> json list \<Rightarrow> json list option)
     \<Rightarrow> (json \<Rightarrow> world \<Rightarrow> unit result \<times> world) \<Rightarrow> world \<Rightarrow> unit result \<times> world" where
  "mergeBlock field existing merge save w =
     (case field of
        None \<Rightarrow> (Returned (), w)
      | Some b \<Rightarrow>
          if \<not> truthy field then (Returned (), w)
          else (case (recordsOf existing, recordsOf b) of
                  (Some es, Some bs) \<Rightarrow>
                    (case merge es bs of
                       Some merged \<Rightarrow> save (JArr merged) w
                     | None \<Rightarrow> (Threw TypeError, w))
                | _ \<Rightarrow> (Threw TypeError, w)))"

text \<open>\<^verbatim>\<open>{...user}\<close>: the own enumerable fields of a value.\<close>

fun spreadFields :: "json \<Rightarrow> (string \<times> json) list" where
  "spreadFields (JObj fs) = fs"
| "spreadFields (JArr xs) = zip (map (\<lambda>i. digits (int i)) [0 ..< length xs]) xs"
| "spreadFields (JStr s) = zip (map (\<lambda>i. digits (int i)) [0 ..< length s]) (map (\<lambda>c. JStr [c]) s)"
| "spreadFields _ = []"

text \<open>\<^verbatim>\<open>new Map(existing.map((u) => [u.id, u]))\<close>\<close>

definition mapById :: "json list \<Rightarrow> (mapKey \<times> json) list" where
  "mapById xs = fold (\<lambda>(k, u) m. AList.update k u m) (keyed 0 xs) []"

text \<open>The callback of the users block: the password of the existing user with the same
  id, when that user has one, replaces the password of the merged record.\<close>

definition preservePassword :: "(mapKey \<times> json) list \<Rightarrow> mapKey \<Rightarrow> json \<Rightarrow> json" where
  "preservePassword existingMap k user =
     (case map_of existingMap k of
        None \<Rightarrow> user
      | Some existingUser \<Rightarrow>
          (case getProp existingUser ''password'' of
             None \<Rightarrow> user
           | Some p \<Rightarrow>
               if truthy (Some existingUser) \<and> truthy (Some p)
               then JObj (AList.update ''password'' p (spreadFields user))
               else user))"

definition mergeUsers :: "json list \<Rightarrow> json list \<Rightarrow> json list" where
  "mergeUsers existing backup =
     map (\<lambda>(k, user). preservePassword (mapById existing) k user) (mergeKeyed existing backup)"







section \<open>Legacy key migration\<close>

text \<open>The body of the \<^verbatim>\<open>forEach\<close> callback, with its try/catch: a SyntaxError of
  \<^verbatim>\<open>JSON.parse\<close> or an exception of \<^verbatim>\<open>localStorage.setItem\<close> ends this pair only.\<close>

definition migratePair :: "string \<times> string \<Rightarrow> world \<Rightarrow> world" where
  "migratePair p w =
     (let legacy = fst p; newKey = snd p in
      case localStorage_getItem w legacy of
        None \<Rightarrow> w
      | Some legacyData \<Rightarrow>
          if chars legacyData = [] then w
          else (let newData = localStorage_getItem w newKey
                in if (case newData of
                         None \<Rightarrow> False
                       | Some n \<Rightarrow> chars n \<noteq> [] \<and> chars n \<noteq> ''[]'' \<and> chars n \<noteq> ''{}'')
                   then w
                   else (case JSON_parse legacyData of
                           None \<Rightarrow> w
                         | Some parsedData \<Rightarrow>
                             (case localStorage_setItem newKey (Doc parsedData) w of
                                (None, w1) \<Rightarrow> localStorage_removeItem legacy w1
                              | (Some e, w1) \<Rightarrow> w1))))"

definition migrateLegacyKeys :: "world \<Rightarrow> world" where
  "migrateLegacyKeys w = fold migratePair LEGACY_KEY_MAPPINGS w"

section \<open>A concrete host for the examples\<close>

text \<open>
  The operations above take the host as they find it in the world. The examples run on
  this one: a storage that has room for \<open>cap\<close> bytes, counted as \<^const>\<open>totalSize\<close>
  counts them, and throws the quota exception of Chrome beyond that; a clock that stands
  still during a call; a sort that leaves the array as it is when the comparator is not
  consistent; and dates in the 24-character UTC form
  \<^verbatim>\<open>YYYY-MM-DDTHH:mm:ss.sssZ\<close> that \<^verbatim>\<open>toISOString\<close> writes, for the years 1970 to 9999.
\<close>

definition capacityPolicy :: "nat \<Rightarrow> (string \<times> jtext) list \<Rightarrow> string \<Rightarrow> string \<Rightarrow> DOMException option" where
  "capacityPolicy cap st key v =
     (if totalSize (AList.update key (Raw v) st) \<le> cap then None
      else Some (DOMException ''QuotaExceededError'' 22))"

definition acceptAll :: "(string \<times> jtext) list \<Rightarrow> string \<Rightarrow> string \<Rightarrow> DOMException option" where
  "acceptAll st key v = None"

text \<open>Days since 1970-01-01 to year, month, day and back (the proleptic Gregorian calendar).\<close>

definition civilFromDays :: "int \<Rightarrow> int \<times> int \<times> int" where
  "civilFromDays z =
     (let z1 = z + 719468;
          era = z1 div 146097;
          doe = z1 mod 146097;
          yoe = (doe - doe div 1460 + doe div 36524 - doe div 146096) div 365;
          doy = doe - (365 * yoe + yoe div 4 - yoe div 100);
          mp = (5 * doy + 2) div 153;
          d = doy - (153 * mp + 2) div 5 + 1;
          m = (if mp < 10 then mp + 3 else mp - 9);
          y = yoe + era * 400 + (if m \<le> 2 then 1 else 0)
      in (y, m, d))"

definition daysFromCivil :: "int \<Rightarrow> int \<Rightarrow> int \<Rightarrow> int" where
  "daysFromCivil y m d =
     (let y1 = (if m \<le> 2 then y - 1 else y);
          era = y1 div 400;
          yoe = y1 mod 400;
          doy = (153 * (if m > 2 then m - 3 else m + 9) + 2) div 5 + d - 1;
          doe = yoe * 365 + yoe div 4 - yoe div 100 + doy
      in era * 146097 + doe - 719468)"

definition pad :: "nat \<Rightarrow> int \<Rightarrow> string" where
  "pad n i = (let s = digits i in replicate (n - length s) CHR ''0'' @ s)"

definition isoFormat :: "int \<Rightarrow> string" where
  "isoFormat t =
     (let (y, m, d) = civilFromDays (t div 86400000);
          ms = t mod 86400000
      in pad 4 y @ ''-'' @ pad 2 m @ ''-'' @ pad 2 d @ ''T'' @ pad 2 (ms div 3600000) @ '':''
         @ pad 2 (ms mod 3600000 div 60000) @ '':'' @ pad 2 (ms mod 60000 div 1000) @ ''.''
         @ pad 3 (ms mod 1000) @ ''Z'')"

definition isoField :: "string \<Rightarrow> nat \<Rightarrow> nat \<Rightarrow> int" where
  "isoField s i n = int (parseDigits (take n (drop i s)))"

definition isoParse :: "string \<Rightarrow> int option" where
  "isoParse s =
     (let t = daysFromCivil (isoField s 0 4) (isoField s 5 2) (isoField s 8 2) * 86400000
              + isoField s 11 2 * 3600000 + isoField s 14 2 * 60000 + isoField s 17 2 * 1000 + isoField s 20 3
      in if length s = 24 \<and> 0 \<le> t \<and> isoFormat t = s then Some t else None)"

text \<open>An empty store at 2023-11-14T22:13:20.000Z.\<close>

definition freshWorld :: world where
  "freshWorld =
     \<lparr>storage = [], policy = acceptAll, now = 1700000000000, ticks = [],
      date_parse = isoParse, toISOString = isoFormat, engine_sort = (\<lambda>keys xs. xs), randoms = [],
      lastStorageCheckTime = 0, cachedStorageSize = 0, lastWarningTime = 0, trace = []\<rparr>"

section \<open>Example data\<close>

definition nullServicesBackup :: json where
  "nullServicesBackup =
     JObj [(''version'', JStr ''1.0.0''), (''services'', JNull), (''team'', JArr []),
           (''testimonials'', JArr []), (''jobs'', JArr []), (''users'', JArr []),
           (''contacts'', JArr []), (''newsletter'', JArr []), (''applications'', JArr []),
           (''exportedAt'', JStr ''2024-01-01T00:00:00.000Z'')]"

definition limitedCompatibility :: string where
  "limitedCompatibility = ''Backup does not include version information (limited compatibility)''"

definition unversionedBackup :: "(string \<times> json) list" where
  "unversionedBackup =
     [(''services'', JArr [JObj [(''id'', JStr ''s1''), (''title'', JStr ''Cleaning'')]]), (''team'', JArr []),
      (''testimonials'', JArr []), (''jobs'', JArr []), (''users'', JArr []),
      (''contacts'', JArr []), (''newsletter'', JArr []), (''applications'', JArr []),
      (''exportedAt'', JStr ''2024-01-01T00:00:00.000Z'')]"

definition futureBackup :: "(string \<times> json) list" where
  "futureBackup = (''version'', JStr ''2.1.0'') # unversionedBackup"

definition brokenBackup :: "(string \<times> json) list" where
  "brokenBackup = (''services'', JStr ''none'') # unversionedBackup"

text \<open>A key holds data: its text is neither missing nor empty nor \<^verbatim>\<open>[]\<close> nor \<^verbatim>\<open>{}\<close>
  (the test of \<^verbatim>\<open>migrateLegacyKeys\<close> on the new key).\<close>

definition holdsData :: "jtext option \<Rightarrow> bool" where
  "holdsData t = (case t of None \<Rightarrow> False | Some n \<Rightarrow> chars n \<noteq> [] \<and> chars n \<noteq> ''[]'' \<and> chars n \<noteq> ''{}'')"

text \<open>A store with three legacy keys: one whose text does not parse, one to migrate, one
  whose new key already holds data.\<close>

definition legacyWorld :: world where
  "legacyWorld = freshWorld\<lparr>storage :=
     [(''edgemakers_contacts'', Raw ''{broken''),
      (''edgemakers_newsletter'', Doc (JArr [JObj [(''id'', JStr ''n1''), (''email'', JStr ''a@b.c'')]])),
      (''edgemakers_job_applications'', Doc (JArr [JObj [(''id'', JStr ''a0'')]])),
      (DB_APPLICATIONS, Doc (JArr [JObj [(''id'', JStr ''a1'')]]))]\<rparr>"

text \<open>
  What a call leaves alone. \<open>frame K E w w'\<close>: from \<open>w\<close> to \<open>w'\<close> the host functions are
  the same, a clock that stands still has not moved, the keys outside \<open>K\<close> hold what they
  held, and the trace has grown by events none of which is in \<open>E\<close>.
\<close>

definition frame :: "string set \<Rightarrow> event set \<Rightarrow> world \<Rightarrow> world \<Rightarrow> bool" where
  "frame K E w w' \<longleftrightarrow>
     policy w' = policy w \<and> date_parse w' = date_parse w \<and> toISOString w' = toISOString w
     \<and> engine_sort w' = engine_sort w
     \<and> (ticks w = [] \<longrightarrow> ticks w' = [] \<and> now w' = now w)
     \<and> (\<forall>k. k \<notin> K \<longrightarrow> map_of (storage w') k = map_of (storage w) k)
     \<and> (\<exists>es. trace w' = trace w @ es \<and> set es \<inter> E = {})"

definition submissionKeys :: "string set" where
  "submissionKeys = {DB_CONTACTS, DB_NEWSLETTER, DB_APPLICATIONS}"

text \<open>The topics of the collections that the quota handling never touches.\<close>

definition contentEvents :: "event set" where
  "contentEvents = Emit ` {Services, Team, Testimonials, Jobs, Users, Settings}"

text \<open>The host has room: it accepts every write.\<close>

definition acceptsAll :: "world \<Rightarrow> bool" where
  "acceptsAll w \<longleftrightarrow> (\<forall>st k v. policy w st k v = None)"





text \<open>The four delete operations with the key of their collection.\<close>

definition deleteOperations :: "((string \<Rightarrow> world \<Rightarrow> unit result \<times> world) \<times> string) list" where
  "deleteOperations =
     [(deleteService, DB_SERVICES), (deleteTeamMember, DB_TEAM),
      (deleteTestimonial, DB_TESTIMONIALS), (deleteJob, DB_JOBS)]"

text \<open>The entry \<^verbatim>\<open>addActivityLog\<close> builds when the clock stands still: the given fields,
  then the id and the timestamp.\<close>

definition newLogOf :: "world \<Rightarrow> (string \<times> json) list \<Rightarrow> json" where
  "newLogOf w log =
     JObj (AList.update ''timestamp'' (JStr (toISOString w (now w)))
            (AList.update ''id'' (JStr (''log-'' @ show_int (now w) @ ''-'' @ fst (randomSuffix w))) log))"

definition cleaningService :: json where
  "cleaningService = JObj [(''id'', JStr ''s1''), (''title'', JStr ''Cleaning'')]"

text \<open>A store with one service and no log.\<close>

definition servicesWorld :: world where
  "servicesWorld = freshWorld\<lparr>storage := [(DB_SERVICES, Doc (JArr [cleaningService]))]\<rparr>"

text \<open>The world after \<^verbatim>\<open>this.setItem(key, value); dbEvents.emit(topic)\<close> went through.\<close>

definition afterSet :: "string \<Rightarrow> topic \<Rightarrow> json \<Rightarrow> world \<Rightarrow> world" where
  "afterSet key t v w = emit t (snd (setItem key v w))"




text \<open>A collection as \<^verbatim>\<open>data.ts\<close> types it for the merge by id: an array of records
  (no \<^verbatim>\<open>null\<close>) whose ids are strings, no two of them equal.\<close>

definition idCollection :: "json \<Rightarrow> bool" where
  "idCollection v =
     (case v of
        JArr xs \<Rightarrow> JNull \<notin> set xs
                   \<and> list_all (\<lambda>x. case idOf x of Some (JStr s) \<Rightarrow> True | _ \<Rightarrow> False) xs
                   \<and> distinct (map idOf xs)
      | _ \<Rightarrow> False)"













text \<open>A store whose host refuses every write, as a browser with storage access blocked
  does.\<close>

definition lockedWorld :: world where
  "lockedWorld = servicesWorld\<lparr>policy := (\<lambda>st key v. Some (DOMException ''SecurityError'' 18))\<rparr>"

text \<open>A store whose team collection has a \<^verbatim>\<open>null\<close> element.\<close>

definition nullTeamWorld :: world where
  "nullTeamWorld =
     freshWorld\<lparr>storage := [(DB_TEAM, Doc (JArr [JNull, JObj [(''id'', JStr ''t1''), (''name'', JStr ''Asha'')]]))]\<rparr>"





section \<open>Backup validation\<close>

lemma isValid_iff: "isValid (validateBackupFile data) \<longleftrightarrow> errors (validateBackupFile data) = []"
  by (auto simp: validateBackupFile_def invalidFormat_def Let_def split: json.splits prod.splits)

lemma versionMessages_falsy:
  "\<not> truthy v \<Longrightarrow> versionMessages v = ([], [limitedCompatibility])"
  by (auto simp: versionMessages_def limitedCompatibility_def split: option.splits json.splits)

lemma parseVersion_current: "parseVersion BACKUP_FORMAT_VERSION = Some (1, 0, 0)"
  by code_simp

lemma versionMessages_major:
  "parseVersion v = Some (M, m, p) \<Longrightarrow> M \<noteq> 1 \<Longrightarrow>
   fst (versionMessages (Some (JStr v))) = [''Incompatible backup format version: '' @ v @ '' (current: 1.0.0). Major version mismatch.'']"
  apply (cases "v = []")
   apply (simp add: parseVersion_def)
  apply (simp add: versionMessages_def parseVersion_current)
  done

lemma missingFieldErrors_none:
  "\<forall>f\<in>set requiredFields. map_of fs f \<noteq> None \<Longrightarrow> missingFieldErrors fs = []"
  by (auto simp: missingFieldErrors_def filter_empty_conv)

lemma arrayTypeErrors_none:
  "\<forall>f\<in>set arrayFields. isArray (map_of fs f) \<Longrightarrow> arrayTypeErrors fs = []"
  by (auto simp: arrayTypeErrors_def filter_empty_conv)

lemma arrayTypeErrors_mem:
  "f \<in> set arrayFields \<Longrightarrow> truthy (map_of fs f) \<Longrightarrow> \<not> isArray (map_of fs f) \<Longrightarrow>
   (''Invalid data type for '' @ f @ '': expected array'') \<in> set (arrayTypeErrors fs)"
  by (simp add: arrayTypeErrors_def)

lemma serviceStructureErrors_none:
  "\<forall>item\<in>set items. truthy (getProp item ''id'') \<and> truthy (getProp item ''title'')
   \<Longrightarrow> serviceStructureErrors items = []"
  by (auto simp: serviceStructureErrors_def filter_empty_conv dest!: set_zip_rightD)

lemma errors_validate:
  "\<not> validateThrows fs \<Longrightarrow>
   errors (validateBackupFile (JObj fs)) =
     missingFieldErrors fs @ fst (versionMessages (map_of fs ''version'')) @ arrayTypeErrors fs
       @ (case map_of fs ''services'' of Some (JArr items) \<Rightarrow> serviceStructureErrors items | _ \<Rightarrow> [])"
  by (auto simp: validateBackupFile_def Let_def split: prod.splits)

lemma warnings_validate:
  "\<not> validateThrows fs \<Longrightarrow>
   warnings (validateBackupFile (JObj fs)) = snd (versionMessages (map_of fs ''version''))"
  by (auto simp: validateBackupFile_def Let_def split: prod.splits)

text \<open>
  Claim C5, as amended. For a backup object with every required field present:
  \<^item> when the version is missing (or falsy), every collection field is an array and every
    service has an id and a title, the result is valid and carries the one warning about
    limited compatibility;
  \<^item> when the version is a string whose major number differs from 1 (and no element of
    the services array is \<^verbatim>\<open>null\<close>), the result is invalid and its errors contain the
    major-mismatch message;
  \<^item> when a collection field is truthy and not an array (and the body does not throw: the
    version is falsy or a string, no element of the services array is \<^verbatim>\<open>null\<close>), the
    result is invalid and its errors contain the type error of that field;
  \<^item> the result is valid exactly when no error was collected, whatever the warnings.
\<close>

theorem validateBackupFile_outcomes:
  assumes req: "\<forall>f\<in>set requiredFields. map_of fs f \<noteq> None"
  shows "(\<not> truthy (map_of fs ''version'')
            \<and> (\<forall>f\<in>set arrayFields. isArray (map_of fs f))
            \<and> (\<forall>items. map_of fs ''services'' = Some (JArr items) \<longrightarrow>
                  (\<forall>item\<in>set items. truthy (getProp item ''id'') \<and> truthy (getProp item ''title'')))
          \<longrightarrow> isValid (validateBackupFile (JObj fs))
              \<and> warnings (validateBackupFile (JObj fs)) = [limitedCompatibility])
       \<and> (\<forall>v major minor patch.
             map_of fs ''version'' = Some (JStr v) \<and> parseVersion v = Some (major, minor, patch) \<and> major \<noteq> 1
             \<and> (\<forall>items. map_of fs ''services'' = Some (JArr items) \<longrightarrow> JNull \<notin> set items)
           \<longrightarrow> \<not> isValid (validateBackupFile (JObj fs))
               \<and> (''Incompatible backup format version: '' @ v @ '' (current: 1.0.0). Major version mismatch.'')
                   \<in> set (errors (validateBackupFile (JObj fs))))
       \<and> (\<forall>f\<in>set arrayFields.
             truthy (map_of fs f) \<and> \<not> isArray (map_of fs f)
             \<and> (\<not> truthy (map_of fs ''version'') \<or> (\<exists>v. map_of fs ''version'' = Some (JStr v)))
             \<and> (\<forall>items. map_of fs ''services'' = Some (JArr items) \<longrightarrow> JNull \<notin> set items)
           \<longrightarrow> \<not> isValid (validateBackupFile (JObj fs))
               \<and> (''Invalid data type for '' @ f @ '': expected array'') \<in> set (errors (validateBackupFile (JObj fs))))
       \<and> (isValid (validateBackupFile (JObj fs)) \<longleftrightarrow> errors (validateBackupFile (JObj fs)) = [])"
proof (intro conjI impI allI ballI)
  assume a: "\<not> truthy (map_of fs ''version'')
            \<and> (\<forall>f\<in>set arrayFields. isArray (map_of fs f))
            \<and> (\<forall>items. map_of fs ''services'' = Some (JArr items) \<longrightarrow>
                  (\<forall>item\<in>set items. truthy (getProp item ''id'') \<and> truthy (getProp item ''title'')))"
  then have nt: "\<not> validateThrows fs"
    by (fastforce simp: validateThrows_def split: option.splits json.splits)
  from a have "isArray (map_of fs ''services'')" by (simp add: arrayFields_def)
  then obtain items where it: "map_of fs ''services'' = Some (JArr items)"
    by (cases "map_of fs ''services''" rule: isArray.cases) auto
  with a have "serviceStructureErrors items = []"
    by (intro serviceStructureErrors_none) blast
  with a it nt req have "errors (validateBackupFile (JObj fs)) = []"
    by (simp add: errors_validate missingFieldErrors_none arrayTypeErrors_none versionMessages_falsy)
  then show "isValid (validateBackupFile (JObj fs))" by (simp add: isValid_iff)
  from a nt show "warnings (validateBackupFile (JObj fs)) = [limitedCompatibility]"
    by (simp add: warnings_validate versionMessages_falsy)
next
  fix v major minor patch
  assume a: "map_of fs ''version'' = Some (JStr v) \<and> parseVersion v = Some (major, minor, patch) \<and> major \<noteq> 1
             \<and> (\<forall>items. map_of fs ''services'' = Some (JArr items) \<longrightarrow> JNull \<notin> set items)"
  then have nt: "\<not> validateThrows fs"
    by (auto simp: validateThrows_def split: option.splits json.splits)
  from a have v: "map_of fs ''version'' = Some (JStr v)"
    and pv: "parseVersion v = Some (major, minor, patch)" and mj: "major \<noteq> 1"
    by simp_all
  have "fst (versionMessages (map_of fs ''version'')) =
      [''Incompatible backup format version: '' @ v @ '' (current: 1.0.0). Major version mismatch.'']"
    unfolding v by (rule versionMessages_major[OF pv mj])
  then show m: "(''Incompatible backup format version: '' @ v @ '' (current: 1.0.0). Major version mismatch.'')
                   \<in> set (errors (validateBackupFile (JObj fs)))"
    unfolding errors_validate[OF nt] by (simp only: set_append Un_iff list.set_intros simp_thms)
  then show "\<not> isValid (validateBackupFile (JObj fs))"
    by (auto simp: isValid_iff)
next
  fix f
  assume f: "f \<in> set arrayFields"
    and a: "truthy (map_of fs f) \<and> \<not> isArray (map_of fs f)
             \<and> (\<not> truthy (map_of fs ''version'') \<or> (\<exists>v. map_of fs ''version'' = Some (JStr v)))
             \<and> (\<forall>items. map_of fs ''services'' = Some (JArr items) \<longrightarrow> JNull \<notin> set items)"
  then have nt: "\<not> validateThrows fs"
    by (auto simp: validateThrows_def split: option.splits json.splits)
  from f a have "(''Invalid data type for '' @ f @ '': expected array'') \<in> set (arrayTypeErrors fs)"
    by (intro arrayTypeErrors_mem) auto
  then show m: "(''Invalid data type for '' @ f @ '': expected array'') \<in> set (errors (validateBackupFile (JObj fs)))"
    unfolding errors_validate[OF nt] by (simp only: set_append Un_iff simp_thms)
  then show "\<not> isValid (validateBackupFile (JObj fs))"
    by (auto simp: isValid_iff)
qed (simp_all add: isValid_iff)

lemma parseVersion_future: "parseVersion ''2.1.0'' = Some (2, 1, 0)"
  by code_simp

text \<open>The three cases of C5 on three backups: one without version, one of format 2.1.0,
  one whose \<^verbatim>\<open>services\<close> is a string.\<close>

theorem validateBackupFile_outcomes_witness:
  "(isValid (validateBackupFile (JObj unversionedBackup))
     \<and> warnings (validateBackupFile (JObj unversionedBackup)) = [limitedCompatibility])
   \<and> (\<not> isValid (validateBackupFile (JObj futureBackup))
     \<and> (''Incompatible backup format version: '' @ ''2.1.0'' @ '' (current: 1.0.0). Major version mismatch.'')
          \<in> set (errors (validateBackupFile (JObj futureBackup))))
   \<and> (\<not> isValid (validateBackupFile (JObj brokenBackup))
     \<and> (''Invalid data type for '' @ ''services'' @ '': expected array'')
          \<in> set (errors (validateBackupFile (JObj brokenBackup))))"
proof (intro conjI)
  have req: "\<forall>f\<in>set requiredFields. map_of unversionedBackup f \<noteq> None"
    by (simp add: requiredFields_def unversionedBackup_def)
  have a: "\<not> truthy (map_of unversionedBackup ''version'')
            \<and> (\<forall>f\<in>set arrayFields. isArray (map_of unversionedBackup f))
            \<and> (\<forall>items. map_of unversionedBackup ''services'' = Some (JArr items) \<longrightarrow>
                  (\<forall>item\<in>set items. truthy (getProp item ''id'') \<and> truthy (getProp item ''title'')))"
    by (auto simp add: arrayFields_def unversionedBackup_def)
  from validateBackupFile_outcomes[OF req] a
  show "isValid (validateBackupFile (JObj unversionedBackup))"
    and "warnings (validateBackupFile (JObj unversionedBackup)) = [limitedCompatibility]"
    by blast+
next
  have req: "\<forall>f\<in>set requiredFields. map_of futureBackup f \<noteq> None"
    by (simp add: requiredFields_def futureBackup_def unversionedBackup_def)
  have b: "map_of futureBackup ''version'' = Some (JStr ''2.1.0'') \<and> parseVersion ''2.1.0'' = Some (2, 1, 0) \<and> (2::nat) \<noteq> 1
             \<and> (\<forall>items. map_of futureBackup ''services'' = Some (JArr items) \<longrightarrow> JNull \<notin> set items)"
    by (auto simp add: futureBackup_def unversionedBackup_def parseVersion_future)
  from validateBackupFile_outcomes[OF req] b
  show "\<not> isValid (validateBackupFile (JObj futureBackup))"
    and "(''Incompatible backup format version: '' @ ''2.1.0'' @ '' (current: 1.0.0). Major version mismatch.'')
          \<in> set (errors (validateBackupFile (JObj futureBackup)))"
    by blast+
next
  have req: "\<forall>f\<in>set requiredFields. map_of brokenBackup f \<noteq> None"
    by (simp add: requiredFields_def brokenBackup_def unversionedBackup_def)
  have f: "''services'' \<in> set arrayFields" by (simp add: arrayFields_def)
  have c: "truthy (map_of brokenBackup ''services'') \<and> \<not> isArray (map_of brokenBackup ''services'')
             \<and> (\<not> truthy (map_of brokenBackup ''version'') \<or> (\<exists>v. map_of brokenBackup ''version'' = Some (JStr v)))
             \<and> (\<forall>items. map_of brokenBackup ''services'' = Some (JArr items) \<longrightarrow> JNull \<notin> set items)"
    by (auto simp add: brokenBackup_def unversionedBackup_def)
  from validateBackupFile_outcomes[OF req] f c
  show "\<not> isValid (validateBackupFile (JObj brokenBackup))"
    and "(''Invalid data type for '' @ ''services'' @ '': expected array'')
          \<in> set (errors (validateBackupFile (JObj brokenBackup)))"
    by blast+
qed

text \<open>
  Claim C5 as stated fails: a backup with every required field present whose
  \<^verbatim>\<open>services\<close> is \<^verbatim>\<open>null\<close> (present, not an array) is valid, with no error: the type
  check of the source is \<^verbatim>\<open>data[field] && !Array.isArray(data[field])\<close>, which a falsy
  value passes.
\<close>

theorem validateBackupFile_null_collection:
  "list_all (\<lambda>f. getProp nullServicesBackup f \<noteq> None) requiredFields
   \<and> getProp nullServicesBackup ''services'' = Some JNull
   \<and> \<not> isArray (getProp nullServicesBackup ''services'')
   \<and> isValid (validateBackupFile nullServicesBackup)
   \<and> errors (validateBackupFile nullServicesBackup) = []"
  by code_simp

section \<open>Legacy key migration\<close>

lemma migratePair_policy [simp]: "policy (migratePair p w) = policy w"
  by (auto simp: migratePair_def Let_def localStorage_setItem_def localStorage_removeItem_def
      split: option.splits prod.splits)

lemma migratePair_other:
  "k \<noteq> fst p \<Longrightarrow> k \<noteq> snd p \<Longrightarrow> map_of (storage (migratePair p w)) k = map_of (storage w) k"
  by (auto simp: migratePair_def Let_def localStorage_setItem_def localStorage_removeItem_def
      update_conv' delete_conv' split: option.splits prod.splits)

lemma migratePair_skip:
  "holdsData (map_of (storage w) (snd p)) \<Longrightarrow> migratePair p w = w"
  by (auto simp: migratePair_def Let_def holdsData_def localStorage_getItem_def split: option.splits)

lemma migratePair_move:
  assumes "\<not> holdsData (map_of (storage w) newKey)"
    and "map_of (storage w) legacy = Some old" and "chars old \<noteq> []" and "JSON_parse old = Some j"
    and "policy w (storage w) newKey (stringify j) = None" and "legacy \<noteq> newKey"
  shows "map_of (storage (migratePair (legacy, newKey) w)) newKey = Some (Doc j)"
    and "map_of (storage (migratePair (legacy, newKey) w)) legacy = None"
  using assms
  by (auto simp: migratePair_def Let_def holdsData_def localStorage_getItem_def localStorage_setItem_def
      localStorage_removeItem_def update_conv' delete_conv' split: option.splits)

lemma fold_migratePair_policy [simp]: "policy (fold migratePair ps w) = policy w"
  by (induction ps arbitrary: w) auto

lemma fold_migratePair_other:
  "k \<notin> fst ` set ps \<Longrightarrow> k \<notin> snd ` set ps \<Longrightarrow>
   map_of (storage (fold migratePair ps w)) k = map_of (storage w) k"
  by (induction ps arbitrary: w) (auto simp: migratePair_other)

lemma migrate_split:
  assumes ps: "ps = pre @ (legacy, newKey) # post" and ne: "legacy \<noteq> newKey"
    and l: "legacy \<notin> fst ` set (pre @ post)" "legacy \<notin> snd ` set (pre @ post)"
    and n: "newKey \<notin> fst ` set (pre @ post)" "newKey \<notin> snd ` set (pre @ post)"
  shows "(holdsData (map_of (storage w) newKey) \<longrightarrow>
            map_of (storage (fold migratePair ps w)) newKey = map_of (storage w) newKey
          \<and> map_of (storage (fold migratePair ps w)) legacy = map_of (storage w) legacy)
       \<and> (\<not> holdsData (map_of (storage w) newKey) \<and> map_of (storage w) legacy = Some old
            \<and> chars old \<noteq> [] \<and> JSON_parse old = Some j
            \<and> (\<forall>st. policy w st newKey (chars old) = None)
          \<longrightarrow> map_of (storage (fold migratePair ps w)) newKey = Some old
              \<and> map_of (storage (fold migratePair ps w)) legacy = None)"
proof -
  define w1 where "w1 = fold migratePair pre w"
  define w2 where "w2 = migratePair (legacy, newKey) w1"
  have w3: "fold migratePair ps w = fold migratePair post w2"
    by (simp add: ps w1_def w2_def)
  have pre_l: "map_of (storage w1) legacy = map_of (storage w) legacy"
    and pre_n: "map_of (storage w1) newKey = map_of (storage w) newKey"
    using l n by (auto simp: w1_def intro!: fold_migratePair_other)
  have post_l: "map_of (storage (fold migratePair post w2)) legacy = map_of (storage w2) legacy"
    and post_n: "map_of (storage (fold migratePair post w2)) newKey = map_of (storage w2) newKey"
    using l n by (auto intro!: fold_migratePair_other)
  show ?thesis
  proof (intro conjI impI)
    assume h: "holdsData (map_of (storage w) newKey)"
    then have "w2 = w1" by (simp add: w2_def pre_n migratePair_skip)
    then show "map_of (storage (fold migratePair ps w)) newKey = map_of (storage w) newKey"
      and "map_of (storage (fold migratePair ps w)) legacy = map_of (storage w) legacy"
      using post_l post_n pre_l pre_n by (simp_all add: w3)
  next
    assume a: "\<not> holdsData (map_of (storage w) newKey) \<and> map_of (storage w) legacy = Some old
            \<and> chars old \<noteq> [] \<and> JSON_parse old = Some j
            \<and> (\<forall>st. policy w st newKey (chars old) = None)"
    then have old: "old = Doc j" by (cases old) auto
    have pol: "policy w1 (storage w1) newKey (stringify j) = None"
      using a old by (simp add: w1_def)
    have "map_of (storage w2) newKey = Some (Doc j)" and "map_of (storage w2) legacy = None"
      unfolding w2_def using a pol ne
      by (auto intro!: migratePair_move[where old=old] simp: pre_l pre_n)
    then show "map_of (storage (fold migratePair ps w)) newKey = Some old"
      and "map_of (storage (fold migratePair ps w)) legacy = None"
      by (simp_all add: w3 post_l post_n old)
  qed
qed

lemma legacy_pair_cases:
  assumes "(legacy, newKey) \<in> set LEGACY_KEY_MAPPINGS"
  shows "(legacy = ''edgemakers_contacts'' \<and> newKey = DB_CONTACTS)
    \<or> (legacy = ''edgemakers_newsletter'' \<and> newKey = DB_NEWSLETTER)
    \<or> (legacy = ''edgemakers_job_applications'' \<and> newKey = DB_APPLICATIONS)
    \<or> (legacy = ''edgemakers_user'' \<and> newKey = DB_USERS)"
  using assms by (simp add: LEGACY_KEY_MAPPINGS_def)

text \<open>
  Claim C8. For every pair of \<^verbatim>\<open>LEGACY_KEY_MAPPINGS\<close> and every store: if the new key
  already holds data, the migration leaves both keys of the pair as they are; otherwise,
  if the legacy key holds a non-empty text that parses and the host accepts the write
  under the new key, the new key ends up holding that text and the legacy key is gone.
  Nothing is assumed about the other pairs: one of them failing (a text that does not
  parse, a write the host rejects) does not keep this pair from being migrated.
\<close>

theorem migrateLegacyKeys_pairs:
  assumes "(legacy, newKey) \<in> set LEGACY_KEY_MAPPINGS"
  shows "(holdsData (map_of (storage w) newKey) \<longrightarrow>
            map_of (storage (migrateLegacyKeys w)) newKey = map_of (storage w) newKey
          \<and> map_of (storage (migrateLegacyKeys w)) legacy = map_of (storage w) legacy)
       \<and> (\<not> holdsData (map_of (storage w) newKey) \<and> map_of (storage w) legacy = Some old
            \<and> chars old \<noteq> [] \<and> JSON_parse old = Some j
            \<and> (\<forall>st. policy w st newKey (chars old) = None)
          \<longrightarrow> map_of (storage (migrateLegacyKeys w)) newKey = Some old
              \<and> map_of (storage (migrateLegacyKeys w)) legacy = None)"
proof -
  note split = migrate_split[of LEGACY_KEY_MAPPINGS _ legacy newKey _ w old j, folded migrateLegacyKeys_def]
  from legacy_pair_cases[OF assms] show ?thesis
  proof (elim disjE conjE)
    assume 1: "legacy = ''edgemakers_contacts''" "newKey = DB_CONTACTS"
    show ?thesis
      by (rule split[where pre="[]" and post="tl LEGACY_KEY_MAPPINGS"])
         (simp_all add: LEGACY_KEY_MAPPINGS_def 1)
  next
    assume 2: "legacy = ''edgemakers_newsletter''" "newKey = DB_NEWSLETTER"
    show ?thesis
      by (rule split[where pre="take 1 LEGACY_KEY_MAPPINGS" and post="drop 2 LEGACY_KEY_MAPPINGS"])
         (simp_all add: LEGACY_KEY_MAPPINGS_def 2)
  next
    assume 3: "legacy = ''edgemakers_job_applications''" "newKey = DB_APPLICATIONS"
    show ?thesis
      by (rule split[where pre="take 2 LEGACY_KEY_MAPPINGS" and post="drop 3 LEGACY_KEY_MAPPINGS"])
         (simp_all add: LEGACY_KEY_MAPPINGS_def 3)
  next
    assume 4: "legacy = ''edgemakers_user''" "newKey = DB_USERS"
    show ?thesis
      by (rule split[where pre="take 3 LEGACY_KEY_MAPPINGS" and post="[]"])
         (simp_all add: LEGACY_KEY_MAPPINGS_def 4)
  qed
qed

text \<open>C8 on a store whose first legacy key holds a broken text: the applications pair is
  skipped (its new key holds data), the newsletter pair is migrated.\<close>

theorem migrateLegacyKeys_pairs_witness:
  "(map_of (storage (migrateLegacyKeys legacyWorld)) DB_APPLICATIONS
      = Some (Doc (JArr [JObj [(''id'', JStr ''a1'')]]))
    \<and> map_of (storage (migrateLegacyKeys legacyWorld)) ''edgemakers_job_applications''
      = Some (Doc (JArr [JObj [(''id'', JStr ''a0'')]])))
   \<and> (map_of (storage (migrateLegacyKeys legacyWorld)) DB_NEWSLETTER
      = Some (Doc (JArr [JObj [(''id'', JStr ''n1''), (''email'', JStr ''a@b.c'')]]))
    \<and> map_of (storage (migrateLegacyKeys legacyWorld)) ''edgemakers_newsletter'' = None)"
proof (intro conjI)
  have p: "(''edgemakers_job_applications'', DB_APPLICATIONS) \<in> set LEGACY_KEY_MAPPINGS"
    by (simp add: LEGACY_KEY_MAPPINGS_def)
  have h: "holdsData (map_of (storage legacyWorld) DB_APPLICATIONS)"
    by code_simp
  from migrateLegacyKeys_pairs[OF p, of legacyWorld] h
  have "map_of (storage (migrateLegacyKeys legacyWorld)) DB_APPLICATIONS = map_of (storage legacyWorld) DB_APPLICATIONS"
    and "map_of (storage (migrateLegacyKeys legacyWorld)) ''edgemakers_job_applications''
          = map_of (storage legacyWorld) ''edgemakers_job_applications''"
    by simp_all
  then show "map_of (storage (migrateLegacyKeys legacyWorld)) DB_APPLICATIONS
      = Some (Doc (JArr [JObj [(''id'', JStr ''a1'')]]))"
    and "map_of (storage (migrateLegacyKeys legacyWorld)) ''edgemakers_job_applications''
      = Some (Doc (JArr [JObj [(''id'', JStr ''a0'')]]))"
    by (simp_all add: legacyWorld_def)
next
  have p: "(''edgemakers_newsletter'', DB_NEWSLETTER) \<in> set LEGACY_KEY_MAPPINGS"
    by (simp add: LEGACY_KEY_MAPPINGS_def)
  let ?old = "Doc (JArr [JObj [(''id'', JStr ''n1''), (''email'', JStr ''a@b.c'')]])"
  have h: "\<not> holdsData (map_of (storage legacyWorld) DB_NEWSLETTER)
            \<and> map_of (storage legacyWorld) ''edgemakers_newsletter'' = Some ?old
            \<and> chars ?old \<noteq> [] \<and> JSON_parse ?old = Some (JArr [JObj [(''id'', JStr ''n1''), (''email'', JStr ''a@b.c'')]])
            \<and> (\<forall>st. policy legacyWorld st DB_NEWSLETTER (chars ?old) = None)"
    by (simp add: legacyWorld_def freshWorld_def holdsData_def acceptAll_def)
  from migrateLegacyKeys_pairs[OF p, of legacyWorld ?old] h
  show "map_of (storage (migrateLegacyKeys legacyWorld)) DB_NEWSLETTER = Some ?old"
    and "map_of (storage (migrateLegacyKeys legacyWorld)) ''edgemakers_newsletter'' = None"
    by simp_all
qed

section \<open>What the operations leave alone\<close>

lemma frame_refl [simp]: "frame K E w w"
  by (simp add: frame_def)

lemma frame_trans: "frame K E w w' \<Longrightarrow> frame K E w' w'' \<Longrightarrow> frame K E w w''"
  unfolding frame_def by (elim conjE exE, intro conjI; simp?) (metis (no_types) append.assoc set_append Int_Un_distrib2 Un_empty)

lemma frame_mono: "frame K E w w' \<Longrightarrow> K \<subseteq> K' \<Longrightarrow> E' \<subseteq> E \<Longrightarrow> frame K' E' w w'"
  unfolding frame_def by (elim conjE exE, intro conjI; simp?) blast+

lemma Date_now_frame: "frame {} UNIV w (snd (Date_now w))"
  by (simp add: frame_def Date_now_def split: list.splits)


lemma randomSuffix_frame: "frame {} UNIV w (snd (randomSuffix w))"
  by (simp add: frame_def randomSuffix_def split: list.splits)


lemma getStorageSize_frame: "frame {} UNIV w (snd (getStorageSize w))"
  using Date_now_frame[of w]
  by (simp add: frame_def getStorageSize_def Let_def case_prod_beta)

lemma getStorageUsagePercentage_frame: "frame {} UNIV w (snd (getStorageUsagePercentage w))"
  using getStorageSize_frame[of w]
  by (simp add: getStorageUsagePercentage_def Let_def case_prod_beta)

lemma isStorageNearCapacity_frame: "frame {} UNIV w (snd (isStorageNearCapacity w))"
  using getStorageUsagePercentage_frame[of w]
  by (simp add: isStorageNearCapacity_def Let_def case_prod_beta)

lemma Date_now_storage [simp]: "storage (snd (Date_now w)) = storage w"
  by (simp add: Date_now_def split: list.splits)

lemma getStorageSize_storage [simp]: "storage (snd (getStorageSize w)) = storage w"
  by (simp add: getStorageSize_def Let_def case_prod_beta)

lemma getStorageUsagePercentage_storage [simp]: "storage (snd (getStorageUsagePercentage w)) = storage w"
  by (simp add: getStorageUsagePercentage_def Let_def case_prod_beta)

lemma isStorageNearCapacity_storage [simp]: "storage (snd (isStorageNearCapacity w)) = storage w"
  by (simp add: isStorageNearCapacity_def Let_def case_prod_beta)

lemma warnIfNearCapacity_storage [simp]: "storage (warnIfNearCapacity w) = storage w"
  by (simp add: warnIfNearCapacity_def Let_def case_prod_beta emit_def)

lemma content_simps [simp]:
  "Emit StorageWarning \<notin> contentEvents" "Emit Contacts \<notin> contentEvents"
  "Emit Newsletter \<notin> contentEvents" "Emit Applications \<notin> contentEvents"
  "Emit ActivityLogs \<notin> contentEvents" "SetItem k v \<notin> contentEvents"
  "QuotaErrorEvent a b c \<notin> contentEvents"
  by (auto simp: contentEvents_def)

lemma warnIfNearCapacity_frame: "frame {} contentEvents w (warnIfNearCapacity w)"
proof -
  let ?w1 = "snd (Date_now w)"
  let ?w2 = "snd (isStorageNearCapacity ?w1)"
  have a: "frame {} contentEvents w ?w2"
    by (rule frame_trans[OF frame_mono[OF Date_now_frame] frame_mono[OF isStorageNearCapacity_frame]]) simp_all
  have b: "frame {} contentEvents ?w2 (warnIfNearCapacity w)"
    by (simp add: warnIfNearCapacity_def Let_def case_prod_beta frame_def emit_def)
  from a b show ?thesis by (rule frame_trans)
qed

lemma localStorage_setItem_frame: "frame {k} contentEvents w (snd (localStorage_setItem k v w))"
  by (simp add: frame_def localStorage_setItem_def Let_def update_conv' split: option.splits)

lemma saveCleaned_frame:
  "t \<in> {Contacts, Newsletter, Applications} \<Longrightarrow> frame {key} contentEvents w (saveCleaned key t xs w)"
  using localStorage_setItem_frame[of key w "Doc (JArr xs)"]
  by (auto simp add: saveCleaned_def frame_def emit_def split: prod.splits option.splits)

lemma quotaFailure_frame: "frame {} contentEvents w (snd (quotaFailure w))"
proof -
  let ?w1 = "snd (getStorageSize w)"
  let ?w2 = "snd (getStorageUsagePercentage ?w1)"
  have a: "frame {} contentEvents w ?w2"
    by (rule frame_trans[OF frame_mono[OF getStorageSize_frame] frame_mono[OF getStorageUsagePercentage_frame]]) simp_all
  have b: "frame {} contentEvents ?w2 (snd (quotaFailure w))"
    by (simp add: quotaFailure_def Let_def case_prod_beta frame_def)
  from a b show ?thesis by (rule frame_trans)
qed

lemma cleanupOldData_frame: "frame submissionKeys contentEvents w (snd (cleanupOldData n w))"
proof -
  let ?w1 = "snd (getStorageSize w)"
  have a: "frame submissionKeys contentEvents w ?w1"
    by (rule frame_mono[OF getStorageSize_frame]) simp_all
  have b: "frame submissionKeys contentEvents ?w1 (snd (cleanupOldData n w))"
  proof (cases "sortOldestFirst ?w1 ''submittedAt'' (getContacts ?w1)")
    case None then show ?thesis by (simp add: cleanupOldData_def Let_def case_prod_beta)
  next
    case c: (Some sc)
    show ?thesis
    proof (cases "sortOldestFirst ?w1 ''subscribedAt'' (getNewsletterSubscribers ?w1)")
      case None with c show ?thesis by (simp add: cleanupOldData_def Let_def case_prod_beta)
    next
      case s: (Some ss)
      show ?thesis
      proof (cases "sortOldestFirst ?w1 ''submittedAt'' (getApplications ?w1)")
        case None with c s show ?thesis by (simp add: cleanupOldData_def Let_def case_prod_beta)
      next
        case ap: (Some sa)
        let ?w2 = "saveCleaned DB_CONTACTS Contacts (drop (ceil20 (length sc)) sc) ?w1"
        let ?w3 = "saveCleaned DB_NEWSLETTER Newsletter (drop (ceil20 (length ss)) ss) ?w2"
        let ?w4 = "saveCleaned DB_APPLICATIONS Applications (drop (ceil20 (length sa)) sa) ?w3"
        have r: "snd (cleanupOldData n w) = snd (getStorageSize ?w4)"
          using c s ap by (simp add: cleanupOldData_def Let_def case_prod_beta)
        have f2: "frame submissionKeys contentEvents ?w1 ?w2"
          by (rule frame_mono[OF saveCleaned_frame]) (simp_all add: submissionKeys_def)
        have f3: "frame submissionKeys contentEvents ?w2 ?w3"
          by (rule frame_mono[OF saveCleaned_frame]) (simp_all add: submissionKeys_def)
        have f4: "frame submissionKeys contentEvents ?w3 ?w4"
          by (rule frame_mono[OF saveCleaned_frame]) (simp_all add: submissionKeys_def)
        have f5: "frame submissionKeys contentEvents ?w4 (snd (getStorageSize ?w4))"
          by (rule frame_mono[OF getStorageSize_frame]) simp_all
        show ?thesis unfolding r
          by (rule frame_trans[OF f2 frame_trans[OF f3 frame_trans[OF f4 f5]]])
      qed
    qed
  qed
  from a b show ?thesis by (rule frame_trans)
qed

lemma setItem_frame: "frame (insert key submissionKeys) contentEvents w (snd (setItem key v w))"
proof -
  let ?K = "insert key submissionKeys"
  let ?w0 = "warnIfNearCapacity w"
  let ?w1 = "snd (localStorage_setItem key (Doc v) ?w0)"
  have f0: "frame ?K contentEvents w ?w0"
    by (rule frame_mono[OF warnIfNearCapacity_frame]) simp_all
  have f1: "frame ?K contentEvents ?w0 ?w1"
    by (rule frame_mono[OF localStorage_setItem_frame]) simp_all
  have f01: "frame ?K contentEvents w ?w1" by (rule frame_trans[OF f0 f1])
  have rest: "frame ?K contentEvents ?w1 (snd (setItem key v w))"
  proof (cases "fst (localStorage_setItem key (Doc v) ?w0)")
    case None then show ?thesis by (simp add: setItem_def case_prod_beta)
  next
    case (Some e)
    show ?thesis
    proof (cases "isQuotaError e")
      case False with Some show ?thesis by (simp add: setItem_def case_prod_beta)
    next
      case True
      let ?c = "cleanupOldData (length (stringify v) * 2) ?w1"
      let ?w2 = "snd ?c"
      have f2: "frame ?K contentEvents ?w1 ?w2"
        by (rule frame_mono[OF cleanupOldData_frame]) auto
      show ?thesis
      proof (cases "fst ?c")
        case False
        then have r: "snd (setItem key v w) = snd (quotaFailure ?w2)"
          using Some True by (simp add: setItem_def case_prod_beta Let_def)
        show ?thesis unfolding r
          by (rule frame_trans[OF f2 frame_mono[OF quotaFailure_frame]]) simp_all
      next
        case ok: True
        let ?w3 = "snd (localStorage_setItem key (Doc v) ?w2)"
        have f3: "frame ?K contentEvents ?w2 ?w3"
          by (rule frame_mono[OF localStorage_setItem_frame]) simp_all
        show ?thesis
        proof (cases "fst (localStorage_setItem key (Doc v) ?w2)")
          case None
          then have r: "snd (setItem key v w) = ?w3"
            using Some True ok by (simp add: setItem_def case_prod_beta Let_def)
          show ?thesis unfolding r by (rule frame_trans[OF f2 f3])
        next
          case (Some e2)
          then have r: "snd (setItem key v w) = snd (quotaFailure ?w3)"
            using \<open>fst (localStorage_setItem key (Doc v) ?w0) = Some e\<close> True ok
            by (simp add: setItem_def case_prod_beta Let_def)
          show ?thesis unfolding r
            by (rule frame_trans[OF f2 frame_trans[OF f3 frame_mono[OF quotaFailure_frame]]]) simp_all
        qed
      qed
    qed
  qed
  from f01 rest show ?thesis by (rule frame_trans)
qed


lemma frame_lookup: "frame K E w w' \<Longrightarrow> k \<notin> K \<Longrightarrow> map_of (storage w') k = map_of (storage w) k"
  by (simp add: frame_def)

lemma frame_getItem: "frame K E w w' \<Longrightarrow> k \<notin> K \<Longrightarrow> getItem w' k d = getItem w k d"
  by (simp add: frame_def getItem_def localStorage_getItem_def)

lemma commas_nonempty: "xs \<noteq> [] \<Longrightarrow> \<forall>x\<in>set xs. x \<noteq> [] \<Longrightarrow> commas xs \<noteq> []"
  by (induction xs rule: commas.induct) auto

lemma digits_nonempty [simp]: "digits n \<noteq> []"
  by (subst digits.simps) simp

lemma stringify_nonempty [simp]: "stringify v \<noteq> []"
  by (cases v) (auto simp: show_int_def quote_def)

lemma setItem_accepted:
  assumes "policy w (storage w) key (stringify v) = None"
  shows "setItem key v w =
    (Returned (), (warnIfNearCapacity w)\<lparr>trace := trace (warnIfNearCapacity w) @ [SetItem key (Doc v)],
                                            storage := AList.update key (Doc v) (storage w)\<rparr>)"
proof -
  have "policy (warnIfNearCapacity w) = policy w"
    using warnIfNearCapacity_frame[of w] by (simp add: frame_def)
  with assms show ?thesis
    by (simp add: setItem_def localStorage_setItem_def Let_def)
qed

lemma setItem_accepted_frame:
  assumes "policy w (storage w) key (stringify v) = None"
  shows "frame {key} contentEvents w (snd (setItem key v w))"
proof -
  have "frame {key} contentEvents (warnIfNearCapacity w) (snd (setItem key v w))"
    unfolding setItem_accepted[OF assms] by (simp add: frame_def update_conv')
  with frame_mono[OF warnIfNearCapacity_frame, of "{key}" contentEvents w]
  show ?thesis by (auto intro: frame_trans)
qed

lemma getItem_setItem_accepted:
  assumes "policy w (storage w) key (stringify v) = None"
  shows "getItem (snd (setItem key v w)) key d = v"
  unfolding setItem_accepted[OF assms]
  by (simp add: getItem_def localStorage_getItem_def update_conv')

lemma andThen_Returned [simp]: "andThen (Returned x, w) f = f x w"
  by (simp add: andThen_def)

lemma andThen_Threw [simp]: "andThen (Threw e, w) f = (Threw e, w)"
  by (simp add: andThen_def)


lemma setAndEmit_accepted:
  assumes "policy w (storage w) key (stringify v) = None"
  shows "fst (setAndEmit key t v w) = Returned ()"
    and "snd (setAndEmit key t v w) = emit t (snd (setItem key v w))"
  by (simp_all add: setAndEmit_def setItem_accepted[OF assms])

lemma emit_getItem [simp]: "getItem (emit t w) k d = getItem w k d"
  by (simp add: getItem_def localStorage_getItem_def emit_def)

section \<open>Activity log retention\<close>

lemma Date_now_fields [simp]:
  "policy (snd (Date_now w)) = policy w" "date_parse (snd (Date_now w)) = date_parse w"
  "toISOString (snd (Date_now w)) = toISOString w" "trace (snd (Date_now w)) = trace w"
  "randoms (snd (Date_now w)) = randoms w" "fst (Date_now w) = now w"
  by (simp_all add: Date_now_def split: list.splits)



lemma getItem_Date_now [simp]: "getItem (snd (Date_now w)) k d = getItem w k d"
  by (simp add: getItem_def localStorage_getItem_def)










section \<open>Deleting a record that is not there\<close>


lemma frame_host:
  "frame K E w w' \<Longrightarrow> policy w' = policy w \<and> date_parse w' = date_parse w \<and> toISOString w' = toISOString w"
  by (simp add: frame_def)

lemma emit_frame_any: "Emit t \<notin> E \<Longrightarrow> frame K E w (emit t w)"
  by (simp add: frame_def emit_def)

lemma cleanupOldActivityLogs_frame:
  "frame (insert DB_ACTIVITY_LOGS submissionKeys) contentEvents w (snd (cleanupOldActivityLogs d w))"
proof -
  let ?K = "insert DB_ACTIVITY_LOGS submissionKeys"
  let ?w1 = "snd (Date_now w)"
  have f1: "frame ?K contentEvents w ?w1"
    by (rule frame_mono[OF Date_now_frame]) simp_all
  have f2: "frame ?K contentEvents ?w1 (snd (setItem DB_ACTIVITY_LOGS v ?w1))" for v
    by (rule setItem_frame)
  have f3: "frame ?K contentEvents ?w1 (emit ActivityLogs (snd (setItem DB_ACTIVITY_LOGS v ?w1)))" for v
    by (rule frame_trans[OF f2 emit_frame_any]) simp
  have "frame ?K contentEvents ?w1 (snd (cleanupOldActivityLogs d w))"
    using f2 f3
    by (simp add: cleanupOldActivityLogs_def Let_def case_prod_beta split: option.splits result.splits)
  with f1 show ?thesis by (rule frame_trans)
qed

lemma randomSuffix_storage [simp]: "storage (snd (randomSuffix w)) = storage w"
  by (simp add: randomSuffix_def split: list.splits)

lemma addActivityLog_frame:
  "frame (insert DB_ACTIVITY_LOGS submissionKeys) contentEvents w (addActivityLog log w)"
proof -
  let ?K = "insert DB_ACTIVITY_LOGS submissionKeys"
  let ?w1 = "snd (Date_now w)"
  let ?w2 = "snd (randomSuffix ?w1)"
  let ?w3 = "snd (Date_now ?w2)"
  have f3: "frame ?K contentEvents w ?w3"
    by (rule frame_trans[OF frame_mono[OF Date_now_frame]
          frame_trans[OF frame_mono[OF randomSuffix_frame] frame_mono[OF Date_now_frame]]]) simp_all
  have f4: "frame ?K contentEvents ?w3 (snd (setItem DB_ACTIVITY_LOGS v ?w3))" for v
    by (rule setItem_frame)
  have f5: "frame ?K contentEvents ?w3
      (snd (cleanupOldActivityLogs 30 (emit ActivityLogs (snd (setItem DB_ACTIVITY_LOGS v ?w3)))))" for v
    by (rule frame_trans[OF f4 frame_trans[OF emit_frame_any cleanupOldActivityLogs_frame]]) simp
  have "frame ?K contentEvents ?w3 (addActivityLog log w)"
    using f4 f5
    by (simp add: addActivityLog_def Let_def case_prod_beta split: json.splits result.splits)
  with f3 show ?thesis by (rule frame_trans)
qed

lemma logActivity_frame:
  "frame (insert DB_ACTIVITY_LOGS submissionKeys) contentEvents w (logActivity a t i n d w)"
  by (simp add: logActivity_def addActivityLog_frame)

lemma deleteRecord_absent_eq:
  assumes "getItem w key (JArr []) = JArr xs" and "JNull \<notin> set xs"
    and "\<forall>s\<in>set xs. getProp s ''id'' \<noteq> Some (JStr ident)"
    and "policy w (storage w) key (stringify (JArr xs)) = None"
  shows "deleteRecord key t et nf unk ident w =
     (Returned (), logActivity ''delete'' et ident (JStr unk) None (emit t (snd (setItem key (JArr xs) w))))"
proof -
  have f: "filter (\<lambda>s. getProp s ''id'' \<noteq> Some (JStr ident)) xs = xs"
    using assms(3) by (simp add: filter_id_conv)
  have n: "find (\<lambda>s. getProp s ''id'' = Some (JStr ident)) xs = None"
    using assms(3) by (simp add: find_None_iff)
  show ?thesis
    using assms(1,2)
    by (simp add: deleteRecord_def Let_def f n orDefault_def setAndEmit_def setItem_accepted[OF assms(4)])
qed

lemma deleteRecord_absent:
  assumes "getItem w key (JArr []) = JArr xs" and "JNull \<notin> set xs"
    and "\<forall>s\<in>set xs. getProp s ''id'' \<noteq> Some (JStr ident)"
    and "policy w (storage w) key (stringify (JArr xs)) = None"
    and "key \<notin> insert DB_ACTIVITY_LOGS submissionKeys"
  shows "fst (deleteRecord key t et nf unk ident w) = Returned ()
       \<and> getItem (snd (deleteRecord key t et nf unk ident w)) key (JArr []) = JArr xs"
  unfolding deleteRecord_absent_eq[OF assms(1-4)]
  by (simp add: frame_getItem[OF logActivity_frame assms(5)] getItem_setItem_accepted[OF assms(4)])

lemma deleteOperations_cases:
  assumes "(del, key) \<in> set deleteOperations"
  shows "(del = deleteService \<and> key = DB_SERVICES) \<or> (del = deleteTeamMember \<and> key = DB_TEAM)
       \<or> (del = deleteTestimonial \<and> key = DB_TESTIMONIALS) \<or> (del = deleteJob \<and> key = DB_JOBS)"
  using assms by (simp add: deleteOperations_def)


lemma randomSuffix_fields [simp]:
  "policy (snd (randomSuffix w)) = policy w" "date_parse (snd (randomSuffix w)) = date_parse w"
  "toISOString (snd (randomSuffix w)) = toISOString w" "trace (snd (randomSuffix w)) = trace w"
  "now (snd (randomSuffix w)) = now w" "ticks (snd (randomSuffix w)) = ticks w"
  by (simp_all add: randomSuffix_def split: list.splits)

lemma getItem_randomSuffix [simp]: "getItem (snd (randomSuffix w)) k d = getItem w k d"
  by (simp add: getItem_def localStorage_getItem_def)

lemma acceptsAll_policy: "acceptsAll w \<Longrightarrow> policy w st k v = None"
  by (simp add: acceptsAll_def)

lemma setItem_acceptsAll:
  "acceptsAll w \<Longrightarrow> setItem key v w =
    (Returned (), (warnIfNearCapacity w)\<lparr>trace := trace (warnIfNearCapacity w) @ [SetItem key (Doc v)],
                                            storage := AList.update key (Doc v) (storage w)\<rparr>)"
  by (rule setItem_accepted) (simp add: acceptsAll_policy)



lemma newLogOf_fields:
  "getProp (newLogOf w [(''action'', JStr a), (''entityType'', JStr t), (''entityId'', JStr i),
                     (''entityName'', n), (''user'', u)]) ''action'' = Some (JStr a)"
  "getProp (newLogOf w [(''action'', JStr a), (''entityType'', JStr t), (''entityId'', JStr i),
                     (''entityName'', n), (''user'', u)]) ''entityType'' = Some (JStr t)"
  "getProp (newLogOf w [(''action'', JStr a), (''entityType'', JStr t), (''entityId'', JStr i),
                     (''entityName'', n), (''user'', u)]) ''entityId'' = Some (JStr i)"
  "getProp (newLogOf w [(''action'', JStr a), (''entityType'', JStr t), (''entityId'', JStr i),
                     (''entityName'', n), (''user'', u)]) ''entityName'' = Some n"
  by (simp_all add: newLogOf_def update_conv')


lemma servicesWorld_services: "getItem servicesWorld DB_SERVICES (JArr []) = JArr [cleaningService]"
  by (simp add: servicesWorld_def getItem_def localStorage_getItem_def)

lemma servicesWorld_absent:
  "\<forall>s\<in>set [cleaningService]. getProp s ''id'' \<noteq> Some (JStr ''s9'')"
  by (simp add: cleaningService_def)

lemma servicesWorld_acceptsAll: "acceptsAll servicesWorld"
  by (simp add: acceptsAll_def servicesWorld_def freshWorld_def acceptAll_def)



section \<open>Replace import\<close>

lemma setAndEmit_acceptsAll:
  "acceptsAll w \<Longrightarrow> setAndEmit key t v w = (Returned (), afterSet key t v w)"
  by (simp add: setAndEmit_def setItem_acceptsAll afterSet_def)

lemma afterSet_frame: "acceptsAll w \<Longrightarrow> frame {key} {} w (afterSet key t v w)"
  unfolding afterSet_def
  by (rule frame_trans[OF frame_mono[OF setItem_accepted_frame] emit_frame_any])
     (simp_all add: acceptsAll_policy)


lemma afterSet_get_same [simp]: "acceptsAll w \<Longrightarrow> getItem (afterSet key t v w) key d = v"
  by (simp add: afterSet_def getItem_setItem_accepted acceptsAll_policy)

lemma afterSet_get_other [simp]:
  "acceptsAll w \<Longrightarrow> k \<noteq> key \<Longrightarrow> getItem (afterSet key t v w) k d = getItem w k d"
  by (rule frame_getItem[OF afterSet_frame]) simp_all


lemma afterSet_host:
  "acceptsAll w \<Longrightarrow> date_parse (afterSet key t v w) = date_parse w
     \<and> toISOString (afterSet key t v w) = toISOString w"
  using frame_host[OF afterSet_frame] by blast






lemma importEntry_action:
  "getProp (newLogOf w [(''action'', JStr a), (''entityType'', JStr t), (''entityId'', JStr i),
                     (''entityName'', n), (''user'', u)]) ''action'' = Some (JStr a)"
  by (rule newLogOf_fields)











lemma givenOrEmpty_None [simp]: "givenOrEmpty None = JArr []"
  by (simp add: givenOrEmpty_def orDefault_def)




section \<open>Merge import\<close>




















lemma mergeBlock_result:
  assumes "acceptsAll w" and "field = Some (JArr bs)" and "JNull \<notin> set bs"
    and "existing = JArr es" and "JNull \<notin> set es" and "merge es bs = Some m"
  shows "mergeBlock field existing merge (setAndEmit key t) w = (Returned (), afterSet key t (JArr m) w)"
  using assms by (simp add: mergeBlock_def setAndEmit_acceptsAll)


lemma exportAll_frame: "frame {} UNIV w (snd (exportAll w))"
  unfolding exportAll_def Let_def case_prod_beta snd_conv
  by (rule frame_trans[OF Date_now_frame frame_trans[OF randomSuffix_frame Date_now_frame]])

lemma getItem_exportAll [simp]: "getItem (snd (exportAll w)) k d = getItem w k d"
  by (rule frame_getItem[OF exportAll_frame]) simp





lemma selfMerge_block:
  assumes "acceptsAll w1" and "fld = Some v" and "getItem w1 key (JArr []) = v"
    and "v = JArr xs" and "JNull \<notin> set xs" and "merge xs xs = Some xs"
  shows "mergeBlock fld (getItem w1 key (JArr [])) merge (setAndEmit key t) w1
           = (Returned (), afterSet key t v w1)"
  using mergeBlock_result[OF assms(1), of fld xs "getItem w1 key (JArr [])" xs merge xs key t] assms
  by simp



lemma afterSet_date_parse [simp]: "acceptsAll w \<Longrightarrow> date_parse (afterSet key t v w) = date_parse w"
  by (simp add: afterSet_host)











lemma idCollection_empty [simp]: "idCollection (JArr [])"
  by (simp add: idCollection_def)







section \<open>Deleting and sweeping on any host\<close>

lemma getStorageSize_trace [simp]: "trace (snd (getStorageSize w)) = trace w"
  by (simp add: getStorageSize_def Let_def case_prod_beta)

lemma getStorageUsagePercentage_trace [simp]: "trace (snd (getStorageUsagePercentage w)) = trace w"
  by (simp add: getStorageUsagePercentage_def Let_def case_prod_beta)

lemma quotaFailure_result:
  "\<exists>size pct. fst (quotaFailure w) = Threw (StorageQuotaError pct size QUOTA_BYTES)
      \<and> trace (snd (quotaFailure w)) = trace w @ [QuotaErrorEvent size pct QUOTA_BYTES]"
  by (simp add: quotaFailure_def Let_def case_prod_beta)

lemma quotaFailure_storage [simp]: "storage (snd (quotaFailure w)) = storage w"
  by (simp add: quotaFailure_def Let_def case_prod_beta)

lemma localStorage_setItem_rejected:
  assumes "localStorage_setItem key t w = (Some e, w1)"
  shows "w1 = w\<lparr>trace := trace w @ [SetItem key t]\<rparr> \<and> policy w (storage w) key (chars t) = Some e"
  using assms by (auto simp: localStorage_setItem_def Let_def split: option.splits)

lemma setItem_quota:
  assumes "localStorage_setItem key (Doc v) (warnIfNearCapacity w) = (Some e, w1)"
    and "isQuotaError e"
    and "cleanupOldData (length (stringify v) * 2) w1 = (cleanupSuccessful, w2)"
  shows "setItem key v w =
           (if cleanupSuccessful
            then (case localStorage_setItem key (Doc v) w2 of
                    (None, w3) \<Rightarrow> (Returned (), w3)
                  | (Some retryError, w3) \<Rightarrow> quotaFailure w3)
            else quotaFailure w2)"
  using assms by (simp add: setItem_def Let_def)

text \<open>A write of a key that the eviction does not touch either stores the value and
  returns, or throws and leaves the text under the key as it was.\<close>

lemma setItem_key_outcome:
  assumes "key \<notin> submissionKeys"
  shows "(fst (setItem key v w) = Returned () \<and> map_of (storage (snd (setItem key v w))) key = Some (Doc v))
       \<or> ((\<exists>e. fst (setItem key v w) = Threw e)
            \<and> map_of (storage (snd (setItem key v w))) key = map_of (storage w) key)"
proof (cases "localStorage_setItem key (Doc v) (warnIfNearCapacity w)")
  case (Pair r w1)
  show ?thesis
  proof (cases r)
    case None
    with Pair have "setItem key v w = (Returned (), w1)" by (simp add: setItem_def)
    moreover from Pair None have "map_of (storage w1) key = Some (Doc v)"
      by (auto simp: localStorage_setItem_def Let_def update_conv' split: option.splits)
    ultimately show ?thesis by simp
  next
    case (Some e)
    with Pair have w1: "storage w1 = storage w"
      using localStorage_setItem_rejected[of key "Doc v" "warnIfNearCapacity w" e w1] by simp
    show ?thesis
    proof (cases "isQuotaError e")
      case False
      with Pair Some have "setItem key v w = (Threw (HostError e), w1)" by (simp add: setItem_def)
      with w1 show ?thesis by simp
    next
      case True
      obtain ok w2 where c: "cleanupOldData (length (stringify v) * 2) w1 = (ok, w2)"
        by (cases "cleanupOldData (length (stringify v) * 2) w1")
      have k2: "map_of (storage w2) key = map_of (storage w) key"
        using frame_lookup[OF cleanupOldData_frame[of w1 "length (stringify v) * 2"] assms] c w1 by simp
      note eq = setItem_quota[OF Pair[unfolded Some] True c]
      show ?thesis
      proof (cases "ok \<and> policy w2 (storage w2) key (stringify v) = None")
        case True
        then have "setItem key v w = (Returned (), w2\<lparr>trace := trace w2 @ [SetItem key (Doc v)],
                                        storage := AList.update key (Doc v) (storage w2)\<rparr>)"
          by (simp add: eq localStorage_setItem_def Let_def)
        then show ?thesis by (simp add: update_conv')
      next
        case False
        then have "setItem key v w = quotaFailure w2
                 \<or> setItem key v w = quotaFailure (w2\<lparr>trace := trace w2 @ [SetItem key (Doc v)]\<rparr>)"
          by (auto simp add: eq localStorage_setItem_def Let_def)
        then show ?thesis
        proof
          assume r: "setItem key v w = quotaFailure w2"
          from quotaFailure_result[of w2] show ?thesis unfolding r by (auto simp: k2)
        next
          assume r: "setItem key v w = quotaFailure (w2\<lparr>trace := trace w2 @ [SetItem key (Doc v)]\<rparr>)"
          from quotaFailure_result[of "w2\<lparr>trace := trace w2 @ [SetItem key (Doc v)]\<rparr>"]
          show ?thesis unfolding r by (auto simp: k2)
        qed
      qed
    qed
  qed
qed

lemma getItem_written: "map_of (storage w) key = Some (Doc v) \<Longrightarrow> getItem w key d = v"
  by (simp add: getItem_def localStorage_getItem_def)

lemma getItem_lookup: "map_of (storage w') key = map_of (storage w) key \<Longrightarrow> getItem w' key d = getItem w key d"
  by (simp add: getItem_def localStorage_getItem_def)

lemma deleteRecord_absent_any:
  assumes "getItem w key (JArr []) = JArr xs" and "JNull \<notin> set xs"
    and "\<forall>s\<in>set xs. getProp s ''id'' \<noteq> Some (JStr ident)"
    and "key \<notin> insert DB_ACTIVITY_LOGS submissionKeys"
  shows "getItem (snd (deleteRecord key t et nf unk ident w)) key (JArr []) = JArr xs
       \<and> (fst (deleteRecord key t et nf unk ident w) = Returned () \<longleftrightarrow> fst (setItem key (JArr xs) w) = Returned ())
       \<and> (\<forall>e. fst (setItem key (JArr xs) w) = Threw e \<longrightarrow> fst (deleteRecord key t et nf unk ident w) = Threw e)"
proof -
  have f: "filter (\<lambda>s. getProp s ''id'' \<noteq> Some (JStr ident)) xs = xs"
    using assms(3) by (simp add: filter_id_conv)
  have k: "key \<notin> submissionKeys" using assms(4) by simp
  have eq: "deleteRecord key t et nf unk ident w =
      andThen (setAndEmit key t (JArr xs) w) (\<lambda>u w1. (Returned (), logActivity ''delete'' et ident
        (orDefault (case find (\<lambda>s. getProp s ''id'' = Some (JStr ident)) xs of None \<Rightarrow> None
                    | Some s \<Rightarrow> getProp s nf) (JStr unk)) None w1))"
    using assms(1,2) by (simp add: deleteRecord_def Let_def f)
  show ?thesis
  proof (cases "setItem key (JArr xs) w")
    case (Pair r w1)
    show ?thesis
    proof (cases r)
      case (Returned u)
      with setItem_key_outcome[OF k, of "JArr xs" w] Pair
      have "map_of (storage w1) key = Some (Doc (JArr xs))" by auto
      then have g: "getItem w1 key (JArr []) = JArr xs"
        by (rule getItem_written)
      show ?thesis
        unfolding eq
        by (simp add: setAndEmit_def Pair Returned frame_getItem[OF logActivity_frame assms(4)] g)
    next
      case (Threw e)
      with setItem_key_outcome[OF k, of "JArr xs" w] Pair
      have "map_of (storage w1) key = map_of (storage w) key" by auto
      then have "getItem w1 key (JArr []) = getItem w key (JArr [])" by (rule getItem_lookup)
      from this assms(1) have "getItem w1 key (JArr []) = JArr xs" by (rule trans)
      then show ?thesis
        unfolding eq by (simp add: setAndEmit_def Pair Threw)
    qed
  qed
qed

lemma deleteRecord_not_array:
  "recordsOf (getItem w key (JArr [])) = None \<Longrightarrow> deleteRecord key t et nf unk ident w = (Threw TypeError, w)"
  by (simp add: deleteRecord_def)

text \<open>
  Claim C9, amended. For each of the four delete operations and every store and host:
  when the stored collection is an array without \<^verbatim>\<open>null\<close> elements and none of its
  records has the given id, the collection read back afterwards is the one that was
  there, whether the call returns or throws. The call returns exactly when the rewrite of
  the collection returns, in particular when the host accepts it; it throws what that
  write throws otherwise. When the stored value is not an array, or an element is
  \<^verbatim>\<open>null\<close>, the call throws a TypeError and changes nothing.
\<close>

theorem delete_absent_id_noop:
  assumes "(del, key) \<in> set deleteOperations"
  shows "(recordsOf (getItem w key (JArr [])) = None \<longrightarrow> del ident w = (Threw TypeError, w))
       \<and> (\<forall>xs. getItem w key (JArr []) = JArr xs \<and> JNull \<notin> set xs
               \<and> (\<forall>s\<in>set xs. getProp s ''id'' \<noteq> Some (JStr ident))
             \<longrightarrow> getItem (snd (del ident w)) key (JArr []) = JArr xs
               \<and> (fst (del ident w) = Returned () \<longleftrightarrow> fst (setItem key (JArr xs) w) = Returned ())
               \<and> (\<forall>e. fst (setItem key (JArr xs) w) = Threw e \<longrightarrow> fst (del ident w) = Threw e)
               \<and> (policy w (storage w) key (stringify (JArr xs)) = None \<longrightarrow> fst (del ident w) = Returned ()))"
proof -
  have k: "key \<notin> insert DB_ACTIVITY_LOGS submissionKeys"
    using deleteOperations_cases[OF assms] by (auto simp: submissionKeys_def)
  obtain t et nf unk where d: "del = deleteRecord key t et nf unk"
    using deleteOperations_cases[OF assms]
    by (elim disjE conjE)
       (simp_all add: deleteService_def deleteTeamMember_def deleteTestimonial_def deleteJob_def fun_eq_iff,
        blast+)
  show ?thesis
  proof (intro conjI allI impI)
    assume "recordsOf (getItem w key (JArr [])) = None"
    then show "del ident w = (Threw TypeError, w)" unfolding d by (rule deleteRecord_not_array)
  next
    fix xs
    assume h: "getItem w key (JArr []) = JArr xs \<and> JNull \<notin> set xs
               \<and> (\<forall>s\<in>set xs. getProp s ''id'' \<noteq> Some (JStr ident))"
    then have a: "getItem w key (JArr []) = JArr xs" "JNull \<notin> set xs"
      "\<forall>s\<in>set xs. getProp s ''id'' \<noteq> Some (JStr ident)" by simp_all
    note r = deleteRecord_absent_any[OF a k, of t et nf unk]
    from r show "getItem (snd (del ident w)) key (JArr []) = JArr xs" unfolding d by simp
    from r show "fst (del ident w) = Returned () \<longleftrightarrow> fst (setItem key (JArr xs) w) = Returned ()"
      unfolding d by simp
    {
      fix e assume "fst (setItem key (JArr xs) w) = Threw e"
      with r show "fst (del ident w) = Threw e" unfolding d by simp
    }
    assume "policy w (storage w) key (stringify (JArr xs)) = None"
    then have "fst (setItem key (JArr xs) w) = Returned ()" by (simp add: setItem_accepted)
    with r show "fst (del ident w) = Returned ()" unfolding d by simp
  qed
qed

text \<open>C9 on the store with one service: deleting the id \<^verbatim>\<open>s9\<close>, which no service has.\<close>

theorem delete_absent_id_noop_witness:
  "fst (deleteService ''s9'' servicesWorld) = Returned ()
   \<and> getItem (snd (deleteService ''s9'' servicesWorld)) DB_SERVICES (JArr []) = JArr [cleaningService]"
proof -
  have m: "(deleteService, DB_SERVICES) \<in> set deleteOperations"
    by (simp add: deleteOperations_def)
  have n: "JNull \<notin> set [cleaningService]" by (simp add: cleaningService_def)
  have p: "policy servicesWorld (storage servicesWorld) DB_SERVICES (stringify (JArr [cleaningService])) = None"
    by (rule acceptsAll_policy[OF servicesWorld_acceptsAll])
  from delete_absent_id_noop[OF m, of servicesWorld "''s9''"] servicesWorld_services n servicesWorld_absent p
  show ?thesis by blast
qed

lemma lockedWorld_services: "getItem lockedWorld DB_SERVICES (JArr []) = JArr [cleaningService]"
  by (simp add: lockedWorld_def servicesWorld_def getItem_def localStorage_getItem_def)

lemma setItem_refused:
  assumes "policy w (storage w) key (stringify v) = Some e" and "\<not> isQuotaError e"
  shows "fst (setItem key v w) = Threw (HostError e)"
proof -
  have "policy (warnIfNearCapacity w) = policy w"
    using warnIfNearCapacity_frame[of w] by (simp add: frame_def)
  with assms show ?thesis
    by (simp add: setItem_def localStorage_setItem_def Let_def)
qed

lemma lockedWorld_delete:
  "fst (deleteService ''s9'' lockedWorld) = Threw (HostError (DOMException ''SecurityError'' 18))"
proof -
  have m: "(deleteService, DB_SERVICES) \<in> set deleteOperations"
    by (simp add: deleteOperations_def)
  have k: "DB_SERVICES \<notin> insert DB_ACTIVITY_LOGS submissionKeys" by (simp add: submissionKeys_def)
  have q: "\<not> isQuotaError (DOMException ''SecurityError'' 18)" by (simp add: isQuotaError_def)
  have p: "policy lockedWorld (storage lockedWorld) DB_SERVICES (stringify (JArr [cleaningService]))
             = Some (DOMException ''SecurityError'' 18)"
    by (simp add: lockedWorld_def)
  have n: "JNull \<notin> set [cleaningService]" by (simp add: cleaningService_def)
  from deleteRecord_absent_any[OF lockedWorld_services n servicesWorld_absent k] setItem_refused[OF p q]
  show ?thesis by (simp add: deleteService_def)
qed

text \<open>
  Claim C9 as stated fails. No service of the store has the id \<^verbatim>\<open>s9\<close>; on a host that
  refuses the write, \<^verbatim>\<open>deleteService\<close> throws the host's error. No member of the team
  with the \<^verbatim>\<open>null\<close> element has the id \<^verbatim>\<open>t9\<close>; \<^verbatim>\<open>deleteTeamMember\<close> throws a TypeError.
\<close>

theorem delete_absent_id_raises:
  "getItem lockedWorld DB_SERVICES (JArr []) = JArr [cleaningService]
   \<and> getProp cleaningService ''id'' = Some (JStr ''s1'')
   \<and> fst (deleteService ''s9'' lockedWorld) = Threw (HostError (DOMException ''SecurityError'' 18))
   \<and> getItem nullTeamWorld DB_TEAM (JArr []) = JArr [JNull, JObj [(''id'', JStr ''t1''), (''name'', JStr ''Asha'')]]
   \<and> fst (deleteTeamMember ''t9'' nullTeamWorld) = Threw TypeError"
proof -
  have t: "getItem nullTeamWorld DB_TEAM (JArr []) = JArr [JNull, JObj [(''id'', JStr ''t1''), (''name'', JStr ''Asha'')]]"
    by (simp add: nullTeamWorld_def getItem_def localStorage_getItem_def)
  have "fst (deleteTeamMember ''t9'' nullTeamWorld) = Threw TypeError"
    by (simp add: deleteTeamMember_def deleteRecord_def t)
  with t lockedWorld_services lockedWorld_delete show ?thesis
    by (simp add: cleaningService_def)
qed



section \<open>Users merge\<close>






lemma keyed_records: "map snd (keyed b xs) = xs"
  unfolding keyed_def by (induction xs arbitrary: b) simp_all

lemma keyed_member: "(k, x) \<in> set (keyed b xs) \<Longrightarrow> x \<in> set xs"
  using keyed_records[of b xs] by (metis in_set_zipE set_zip_rightD zip_map_fst_snd)



























text \<open>Two records whose ids are arrays with the same content do not have the same key:
  the merge keeps both, the incoming one first and as it came.\<close>

lemma mergeUsers_array_ids:
  "mergeUsers [JObj [(''id'', JArr [JNum 1]), (''password'', JStr ''p'')]]
              [JObj [(''id'', JArr [JNum 1]), (''password'', JStr [])]]
   = [JObj [(''id'', JArr [JNum 1]), (''password'', JStr [])],
      JObj [(''id'', JArr [JNum 1]), (''password'', JStr ''p'')]]"
  by code_simp

end
